theory Spec2Isabelle
  imports Complex_Main "HOL-Library.AList" "HOL-Library.Char_ord" "HOL-Library.List_Lexorder"
begin

section \<open>Tools/scripts/generate\_manifest.py\<close>

text \<open>
  A shallow embedding of \<^verbatim>\<open>ManifestGenerator\<close>. The script is read with the semantics of
  Python 3: a \<^verbatim>\<open>dict\<close> keeps its insertion order (an association list here), and
  \<^verbatim>\<open>os.path.join\<close> refuses a list argument. Python strings are lists of \<^typ>\<open>char\<close>, so
  code points below 256. Everything the script asks of the operating system, the
  expansion of a replacement template by the \<^verbatim>\<open>re\<close> module and \<^verbatim>\<open>str.upper\<close> (whose
  result can leave that range) are fields of the record \<open>env\<close>; the theorems hold for
  every such environment.
\<close>

subsection \<open>Exceptions, warnings and JSON values\<close>

datatype exn =
    OSError nat \<comment> \<open>with its \<^verbatim>\<open>errno\<close>\<close>
  | ValueError
  | TypeError
  | KeyError string
  | AttributeError
  | UnboundLocalError
  | PlainException string \<comment> \<open>\<^verbatim>\<open>raise Exception(...)\<close>\<close>

text \<open>One constructor for each \<^verbatim>\<open>print\<close> of a diagnostic, with the path it mentions.\<close>

datatype warning =
    Bad_apj_path string \<comment> \<open>line 121\<close>
  | No_board_id string \<comment> \<open>line 125\<close>
  | No_platform string \<comment> \<open>line 128\<close>
  | Error_listing string \<comment> \<open>line 208 (printed on the standard output)\<close>
  | No_file string \<comment> \<open>line 218\<close>
  | Failed_to_parse string exn \<comment> \<open>line 223\<close>
  | Malformed_firmware_version string \<comment> \<open>line 233\<close>
  | Bad_file string \<comment> \<open>line 236\<close>

text \<open>
  What \<^verbatim>\<open>json.load\<close> returns, and what the entries of the manifest hold. A finite
  \<^verbatim>\<open>float\<close> is its real value.
\<close>

datatype json =
    JNull
  | JBool bool
  | JInt int
  | JFloat real
  | JStr string
  | JList "json list"
  | JDict "(string \<times> json) list"

type_synonym ctime = int \<comment> \<open>the value of \<^verbatim>\<open>os.path.getctime\<close>, never inspected\<close>

record env =
  isdir :: "string \<Rightarrow> bool" \<comment> \<open>\<^verbatim>\<open>os.path.isdir\<close>\<close>
  exists :: "string \<Rightarrow> bool" \<comment> \<open>\<^verbatim>\<open>os.path.exists\<close>\<close>
  listdir :: "string \<Rightarrow> exn + string list" \<comment> \<open>\<^verbatim>\<open>os.listdir\<close>\<close>
  readfile :: "string \<Rightarrow> exn + string" \<comment> \<open>\<^verbatim>\<open>open(path).read()\<close>\<close>
  getctime :: "string \<Rightarrow> exn + ctime" \<comment> \<open>\<^verbatim>\<open>os.path.getctime\<close>\<close>
  json_load :: "string \<Rightarrow> exn + json" \<comment> \<open>\<^verbatim>\<open>json.load(open(path, 'r'))\<close>\<close>
  re_template :: "string \<Rightarrow> string \<Rightarrow> exn + string"
    \<comment> \<open>the expansion of a replacement template for a matched text; a template without
        a backslash expands to itself\<close>
  str_upper :: "string \<Rightarrow> string" \<comment> \<open>\<^verbatim>\<open>str.upper\<close>\<close>

subsection \<open>Strings and paths\<close>

definition startswith :: "string \<Rightarrow> string \<Rightarrow> bool" where
  "startswith s p = (take (length p) s = p)"

text \<open>\<^verbatim>\<open>s.split(c)\<close> for a separator of one character: never the empty list.\<close>

fun split_on :: "char \<Rightarrow> string \<Rightarrow> string list" where
  "split_on c [] = [[]]"
| "split_on c (x # xs) =
     (if x = c then [] # split_on c xs
      else (case split_on c xs of
              [] \<Rightarrow> [[x]]
            | w # ws \<Rightarrow> (x # w) # ws))"

definition is_space :: "char \<Rightarrow> bool" where
  "is_space c = ((of_char c :: nat) \<in> set [9, 10, 11, 12, 13, 28, 29, 30, 31, 32, 133, 160])"

definition strip :: "string \<Rightarrow> string" where
  "strip s = rev (dropWhile is_space (rev (dropWhile is_space s)))"

definition is_digit :: "char \<Rightarrow> bool" where
  "is_digit c = (c \<in> set ''0123456789'')"

definition is_hex :: "char \<Rightarrow> bool" where
  "is_hex c = (c \<in> set ''0123456789abcdef'')"

text \<open>\<^verbatim>\<open>posixpath.join\<close> for two components, and for three.\<close>

definition path_join :: "string \<Rightarrow> string \<Rightarrow> string" where
  "path_join a b =
     (if startswith b ''/'' then b
      else if a = [] \<or> last a = CHR ''/'' then a @ b
      else a @ ''/'' @ b)"

definition path_join3 :: "string \<Rightarrow> string \<Rightarrow> string \<Rightarrow> string" where
  "path_join3 a b c = path_join (path_join a b) c"

subsection \<open>The regular expressions\<close>

text \<open>
  \<^verbatim>\<open>re.compile("commit (?P<sha>[0-9a-f]+)").search(content)\<close>: the leftmost position
  where the literal is followed by a hexadecimal digit; the group is the longest run.
\<close>

fun sha_regex_search :: "string \<Rightarrow> string option" where
  "sha_regex_search [] = None"
| "sha_regex_search (c # cs) =
     (if startswith (c # cs) ''commit '' \<and> takeWhile is_hex (drop 7 (c # cs)) \<noteq> []
      then Some (takeWhile is_hex (drop 7 (c # cs)))
      else sha_regex_search cs)"

text \<open>
  \<^verbatim>\<open>re.compile("(?P<board>PX4|navio|pxf)(-(?P<frame>.+))?").match(platformdir)\<close>: the
  alternatives are tried in order at the start of the name; the optional group takes a
  dash and the longest non-empty run of characters other than a newline. The result is
  the pair of the groups \<^verbatim>\<open>board\<close> and \<^verbatim>\<open>frame\<close> (\<open>None\<close> for a group that took no
  part in the match).
\<close>

definition boards :: "string list" where
  "boards = [''PX4'', ''navio'', ''pxf'']"

definition platform_frame_regex_match :: "string \<Rightarrow> (string \<times> string option) option" where
  "platform_frame_regex_match s =
     (case find (startswith s) boards of
        None \<Rightarrow> None
      | Some board \<Rightarrow>
          Some (board,
            (case drop (length board) s of
               [] \<Rightarrow> None
             | c # r \<Rightarrow>
                 if c = CHR ''-'' \<and> takeWhile (\<lambda>x. x \<noteq> CHR 0x0A) r \<noteq> []
                 then Some (takeWhile (\<lambda>x. x \<noteq> CHR 0x0A) r)
                 else None)))"

text \<open>
  \<^verbatim>\<open>re.compile("[^-]+-(?P<variant>v\d+)[.px4]").match(file)\<close>. The first run takes
  every character before the first dash. The digits are greedy, then give characters
  back until the next one is in the class \<^verbatim>\<open>[.px4]\<close>: \<open>digits_then_class r k\<close> tries
  \<open>k\<close> digits, then \<open>k - 1\<close>, down to one.
\<close>

fun digits_then_class :: "string \<Rightarrow> nat \<Rightarrow> string option" where
  "digits_then_class r 0 = None"
| "digits_then_class r (Suc k) =
     (if Suc k < length r \<and> r ! Suc k \<in> set ''.px4'' then Some (take (Suc k) r)
      else digits_then_class r k)"

definition variant_firmware_regex_match :: "string \<Rightarrow> string option" where
  "variant_firmware_regex_match s =
     (if takeWhile (\<lambda>c. c \<noteq> CHR ''-'') s = [] then None
      else (case dropWhile (\<lambda>c. c \<noteq> CHR ''-'') s of
              d # v # r \<Rightarrow>
                if v = CHR ''v'' then
                  (case digits_then_class r (length (takeWhile is_digit r)) of
                     None \<Rightarrow> None
                   | Some ds \<Rightarrow> Some (CHR ''v'' # ds))
                else None
            | _ \<Rightarrow> None))"

text \<open>\<^verbatim>\<open>re.compile("(?P<year>\d{4})-(?P<month>\d{2})").match(firstlevel)\<close>.\<close>

definition year_month_regex_match :: "string \<Rightarrow> bool" where
  "year_month_regex_match s =
     (7 \<le> length s \<and> list_all is_digit (take 4 s) \<and> s ! 4 = CHR ''-''
      \<and> list_all is_digit (take 2 (drop 5 s)))"

text \<open>
  \<^verbatim>\<open>fnmatch.fnmatch(name, pat)\<close> for patterns made of literal characters and \<^verbatim>\<open>*\<close>,
  all that \<^verbatim>\<open>RELEASE_TYPES\<close> holds.
\<close>

fun fnmatch :: "string \<Rightarrow> string \<Rightarrow> bool" where
  "fnmatch [] [] = True"
| "fnmatch (c # cs) [] = False"
| "fnmatch [] (p # ps) = (p = CHR ''*'' \<and> fnmatch [] ps)"
| "fnmatch (c # cs) (p # ps) =
     (if p = CHR ''*'' then fnmatch (c # cs) ps \<or> fnmatch cs (p # ps)
      else c = p \<and> fnmatch cs ps)"

definition FIRMWARE_TYPES :: "string list" where
  "FIRMWARE_TYPES = [''AntennaTracker'', ''Copter'', ''Plane'', ''Rover'', ''Sub'']"

definition RELEASE_TYPES :: "string list" where
  "RELEASE_TYPES = [''beta'', ''latest'', ''stable'', ''stable-*'']"

definition valid_release_type :: "string \<Rightarrow> bool" where
  "valid_release_type tag = list_ex (fnmatch tag) RELEASE_TYPES"

text \<open>Lines 241 to 252: the platform and the frame of a platform directory.\<close>

definition infer_platform_frame :: "string \<Rightarrow> string \<Rightarrow> string \<times> string" where
  "infer_platform_frame platformdir vehicletype =
     (case platform_frame_regex_match platformdir of
        Some (board, fr) \<Rightarrow>
          (board, (case fr of None \<Rightarrow> vehicletype | Some f \<Rightarrow> f))
      | None \<Rightarrow> (platformdir, vehicletype))"

subsection \<open>The class Firmware\<close>

text \<open>
  The dictionary \<^verbatim>\<open>atts\<close> of a \<^verbatim>\<open>Firmware\<close>, one field for each key the script uses.
  The constructor sets the first eight keys to \<^verbatim>\<open>None\<close>; the keys \<^verbatim>\<open>latest\<close>,
  \<^verbatim>\<open>timestamp\<close> and \<^verbatim>\<open>format\<close> do not exist until the first visit, and \<open>None\<close> in
  their fields stands for the missing key (reading it raises \<^verbatim>\<open>KeyError\<close>).
\<close>

record Firmware =
  att_date :: "ctime option"
  att_platform :: "string option"
  att_vehicletype :: "string option"
  att_filepath :: "string option"
  att_git_sha :: "string option"
  att_frame :: "string option"
  att_release_type :: "string option"
  att_firmware_version :: "string option"
  att_latest :: "int option"
  att_timestamp :: "ctime option"
  att_format :: "string option"

definition new_Firmware :: Firmware where
  "new_Firmware =
     \<lparr>att_date = None, att_platform = None, att_vehicletype = None, att_filepath = None,
      att_git_sha = None, att_frame = None, att_release_type = None,
      att_firmware_version = None, att_latest = None, att_timestamp = None,
      att_format = None\<rparr>"

subsection \<open>Small methods\<close>

definition frame_to_mavlink_dict :: "(string \<times> string) list" where
  "frame_to_mavlink_dict =
     [(''quad'', ''QUADROTOR''), (''hexa'', ''HEXAROTOR''), (''y6'', ''ARDUPILOT_Y6''),
      (''tri'', ''TRICOPTER''), (''octa'', ''OCTOROTOR''),
      (''octa-quad'', ''ARDUPILOT_OCTAQUAD''), (''heli'', ''HELICOPTER''),
      (''Plane'', ''FIXED_WING''), (''AntennaTracker'', ''ANTENNA_TRACKER''),
      (''Rover'', ''GROUND_ROVER''), (''Sub'', ''SUBMARINE'')]"

definition frame_map :: "string \<Rightarrow> string" where
  "frame_map frame = (case map_of frame_to_mavlink_dict frame of Some m \<Rightarrow> m | None \<Rightarrow> frame)"

definition releasetype_map :: "env \<Rightarrow> string \<Rightarrow> string" where
  "releasetype_map E releasetype =
     (if releasetype = ''stable'' then ''OFFICIAL'' else str_upper E releasetype)"

definition git_sha_from_git_version :: "env \<Rightarrow> string \<Rightarrow> exn + string" where
  "git_sha_from_git_version E filepath =
     (case readfile E filepath of
        Inl e \<Rightarrow> Inl e
      | Inr content \<Rightarrow>
          (case sha_regex_search content of
             None \<Rightarrow> Inl (PlainException filepath)
           | Some sha \<Rightarrow> Inr sha))"

definition parse_fw_version :: "string \<Rightarrow> exn + (string \<times> string \<times> string \<times> string)" where
  "parse_fw_version version =
     (case split_on CHR ''-'' version of
        [version_numbers, release_type] \<Rightarrow>
          (case split_on CHR ''.'' version_numbers of
             [major, minor, patch] \<Rightarrow> Inr (major, minor, patch, version)
           | _ \<Rightarrow> Inl ValueError)
      | _ \<Rightarrow> Inl ValueError)"

subsection \<open>USB identifiers\<close>

text \<open>
  An entry of the manifest (\<^verbatim>\<open>some_json\<close>, called \<^verbatim>\<open>firmware\<close> in these methods) is a
  dictionary from strings to JSON values. \<open>d[k] = v\<close> is \<^const>\<open>AList.update\<close>.
\<close>

type_synonym entry = "(string \<times> json) list"

definition strs :: "string list \<Rightarrow> json" where
  "strs xs = JList (map JStr xs)"

definition add_USB_IDs_PX4 :: "entry \<Rightarrow> exn + entry" where
  "add_USB_IDs_PX4 firmware =
     (case map_of firmware ''url'' of
        None \<Rightarrow> Inl (KeyError ''url'')
      | Some (JStr url) \<Rightarrow>
          (let suffix = last (split_on CHR ''-'' url) in
           if suffix = ''v1.px4'' then
             Inr (AList.update ''bootloader_str'' (strs [''PX4 BL FMU v1.x''])
                   (AList.update ''board_id'' (JInt 5)
                     (AList.update ''USBID'' (strs [''0x26AC/0x0010'']) firmware)))
           else if suffix \<in> set [''v2.px4'', ''v3.px4''] then
             Inr (AList.update ''bootloader_str'' (strs [''PX4 BL FMU v2.x''])
                   (AList.update ''board_id'' (JInt 9)
                     (AList.update ''USBID'' (strs [''0x26AC/0x0011'']) firmware)))
           else if suffix = ''v4.px4'' then
             Inr (AList.update ''bootloader_str'' (strs [''PX4 BL FMU v4.x''])
                   (AList.update ''board_id'' (JInt 11)
                     (AList.update ''USBID'' (strs [''0x26AC/0x0012'']) firmware)))
           else if suffix = ''v4pro.px4'' then
             Inr (AList.update ''bootloader_str'' (strs [''PX4 BL FMU v4.x PRO''])
                   (AList.update ''board_id'' (JInt 13)
                     (AList.update ''USBID'' (strs [''0x26AC/0x0013'']) firmware)))
           else Inr firmware)
      | Some _ \<Rightarrow> Inl AttributeError)"

text \<open>\<^verbatim>\<open>needle in haystack\<close> on strings.\<close>

fun is_substring :: "string \<Rightarrow> string \<Rightarrow> bool" where
  "is_substring needle [] = (needle = [])"
| "is_substring needle (c # cs) = (startswith (c # cs) needle \<or> is_substring needle cs)"

text \<open>\<^verbatim>\<open>k in j\<close>, \<^verbatim>\<open>j[k]\<close> and \<^verbatim>\<open>j == n\<close> for a value \<open>j\<close> that \<^verbatim>\<open>json.load\<close> returned.\<close>

definition json_contains :: "json \<Rightarrow> string \<Rightarrow> exn + bool" where
  "json_contains j k =
     (case j of
        JDict d \<Rightarrow> Inr (map_of d k \<noteq> None)
      | JList l \<Rightarrow> Inr (JStr k \<in> set l)
      | JStr s \<Rightarrow> Inr (is_substring k s)
      | _ \<Rightarrow> Inl TypeError)"

definition json_getitem :: "json \<Rightarrow> string \<Rightarrow> exn + json" where
  "json_getitem j k =
     (case j of
        JDict d \<Rightarrow> (case map_of d k of None \<Rightarrow> Inl (KeyError k) | Some v \<Rightarrow> Inr v)
      | _ \<Rightarrow> Inl TypeError)"

definition json_eq_int :: "json \<Rightarrow> int \<Rightarrow> bool" where
  "json_eq_int j n =
     (case j of
        JInt m \<Rightarrow> m = n
      | JFloat r \<Rightarrow> r = of_int n
      | JBool b \<Rightarrow> (if b then 1 else 0) = n
      | _ \<Rightarrow> False)"

definition USBID_MAP :: "(string \<times> string list) list" where
  "USBID_MAP =
     [(''CubeBlack'', [''0x2DAE/0x1011'']), (''CubeOrange'', [''0x2DAE/0x1016'']),
      (''CubePurple'', [''0x2DAE/0x1005'']), (''CubeYellow'', [''0x2DAE/0x1002'']),
      (''Pixhawk4'', [''0x3162/0x0047'']), (''PH4-mini'', [''0x3162/0x0049'']),
      (''Pixhawk6'', [''0x3162/0x004B'']), (''VRBrain-v51'', [''0x27AC/0x1151'']),
      (''VRBrain-v52'', [''0x27AC/0x1152'']), (''VRBrain-v54'', [''0x27AC/0x1154'']),
      (''VRCore-v10'', [''0x27AC/0x1910'']), (''VRUBrain-v51'', [''0x27AC/0x1351''])]"

text \<open>
  One of the five blocks of lines 159 to 182: when the board id equals \<open>n\<close>, append
  \<open>bl\<close> to the bootloader strings and \<open>usb\<close> to the USB ids (the pair \<open>acc\<close>).
\<close>

definition special_case ::
  "json \<Rightarrow> int \<Rightarrow> string \<Rightarrow> string \<Rightarrow> string list \<times> string list \<Rightarrow> string list \<times> string list"
where
  "special_case board_id n bl usb acc =
     (if json_eq_int board_id n then (fst acc @ [bl], snd acc @ [usb]) else acc)"

definition add_USB_IDs_ChibiOS ::
  "env \<Rightarrow> string \<Rightarrow> string \<Rightarrow> entry \<Rightarrow> warning list \<Rightarrow> (exn + entry) \<times> warning list"
where
  "add_USB_IDs_ChibiOS E basedir baseurl firmware lg =
     (case map_of firmware ''url'' of
        None \<Rightarrow> (Inl (KeyError ''url''), lg)
      | Some (JStr url0) \<Rightarrow>
          (let url = drop (length baseurl + 1) url0;
               apj_path = path_join basedir url
           in if \<not> exists E apj_path then (Inr firmware, lg @ [Bad_apj_path apj_path])
              else
                (case json_load E apj_path of
                   Inl e \<Rightarrow> (Inl e, lg)
                 | Inr apj_json \<Rightarrow>
                     (case json_contains apj_json ''board_id'' of
                        Inl e \<Rightarrow> (Inl e, lg)
                      | Inr False \<Rightarrow> (Inr firmware, lg @ [No_board_id apj_path])
                      | Inr True \<Rightarrow>
                          if map_of firmware ''platform'' = None
                          then (Inr firmware, lg @ [No_platform apj_path])
                          else
                            (case json_getitem apj_json ''board_id'' of
                               Inl e \<Rightarrow> (Inl e, lg)
                             | Inr board_id \<Rightarrow>
                                 (case map_of firmware ''platform'' of
                                    Some (JStr platform) \<Rightarrow>
                                      (let bl0 = [platform @ ''-BL''];
                                           usb0 = (case map_of USBID_MAP platform of
                                                     Some ids \<Rightarrow> ids
                                                   | None \<Rightarrow> [''0x0483/0x5740'']);
                                           (bl, usb) =
                                             special_case board_id 88 ''MindPX BL FMU v2.x'' ''0x26AC/0x0030''
                                              (special_case board_id 13 ''PX4 BL FMU v4.x PRO'' ''0x26AC/0x0013''
                                                (special_case board_id 11 ''PX4 BL FMU v4.x'' ''0x26AC/0x0012''
                                                  (special_case board_id 9 ''PX4 BL FMU v2.x'' ''0x26AC/0x0011''
                                                    (special_case board_id 50 ''PX4 BL FMU v5.x'' ''0x26AC/0x0032''
                                                      (bl0, usb0)))))
                                       in (Inr (AList.update ''USBID'' (strs usb)
                                                 (AList.update ''bootloader_str'' (strs bl)
                                                   (AList.update ''board_id'' board_id firmware))),
                                           lg))
                                  | _ \<Rightarrow> (Inl TypeError, lg))))))
      | Some _ \<Rightarrow> (Inl TypeError, lg))"

definition add_USB_IDs ::
  "env \<Rightarrow> string \<Rightarrow> string \<Rightarrow> entry \<Rightarrow> warning list \<Rightarrow> (exn + entry) \<times> warning list"
where
  "add_USB_IDs E basedir baseurl firmware lg =
     (case map_of firmware ''format'' of
        None \<Rightarrow> (Inl (KeyError ''format''), lg)
      | Some fmt \<Rightarrow>
          if fmt = JStr ''px4'' then (add_USB_IDs_PX4 firmware, lg)
          else if fmt = JStr ''apj'' then add_USB_IDs_ChibiOS E basedir baseurl firmware lg
          else (Inr firmware, lg))"

subsection \<open>The accumulator: \<^verbatim>\<open>add_firmware_data_from_dir\<close>\<close>

text \<open>
  The nested dictionary \<^verbatim>\<open>firmware_data\<close>: vehicle type, platform, commit, format,
  frame, then the \<^verbatim>\<open>Firmware\<close>. No two keys share a dictionary or a \<^verbatim>\<open>Firmware\<close>
  (each is created fresh on lines 274 to 287), so updating in place is writing the
  new value back under its keys.
\<close>

type_synonym 'v dict = "(string \<times> 'v) list"

type_synonym xfirmwares = "Firmware dict dict dict dict dict"

text \<open>\<^verbatim>\<open>if k not in d: d[k] = v\<close>, then \<^verbatim>\<open>d[k]\<close>.\<close>

definition get_or_new :: "string \<Rightarrow> 'v \<Rightarrow> 'v dict \<Rightarrow> 'v" where
  "get_or_new k v d = (case map_of d k of None \<Rightarrow> v | Some w \<Rightarrow> w)"

text \<open>Lines 294 to 308: the latest flag, the release type and the path.\<close>

definition set_release :: "string \<Rightarrow> string \<Rightarrow> Firmware \<Rightarrow> exn + Firmware" where
  "set_release releasetype path firmware0 =
     (let firmware = firmware0\<lparr>att_latest := Some 0\<rparr> in
      if releasetype = ''dev'' then
        (let firmware1 = (if att_filepath firmware = None
                          then firmware\<lparr>att_filepath := Some path\<rparr> else firmware)
         in Inr (if att_release_type firmware1 = None
                 then firmware1\<lparr>att_release_type := Some ''dev''\<rparr> else firmware1))
      else if releasetype = ''latest'' then
        (let firmware1 = firmware\<lparr>att_latest := Some 1, att_filepath := Some path\<rparr>
         in Inr (if att_release_type firmware1 = None
                 then firmware1\<lparr>att_release_type := Some ''dev''\<rparr> else firmware1))
      else
        (case att_latest firmware of
           None \<Rightarrow> Inl (KeyError ''latest'')
         | Some l \<Rightarrow>
             (let firmware1 = (if l = 0 then firmware\<lparr>att_filepath := Some path\<rparr> else firmware)
              in Inr (firmware1\<lparr>att_release_type := Some releasetype\<rparr>))))"

text \<open>Lines 294 to 316: one visit of a \<^verbatim>\<open>Firmware\<close>, for the file at \<open>path\<close>.\<close>

definition update_firmware ::
  "env \<Rightarrow> string \<Rightarrow> string \<Rightarrow> string \<Rightarrow> string \<Rightarrow> string \<Rightarrow> string \<Rightarrow> string \<Rightarrow> string option
     \<Rightarrow> Firmware \<Rightarrow> exn + Firmware"
where
  "update_firmware E releasetype path file_platform vehicletype git_sha frame firmware_format
       firmware_version firmware0 =
     (case set_release releasetype path firmware0 of
        Inl e \<Rightarrow> Inl e
      | Inr firmware1 \<Rightarrow>
          (let firmware = firmware1\<lparr>att_platform := Some file_platform,
                                     att_vehicletype := Some vehicletype,
                                     att_git_sha := Some git_sha,
                                     att_frame := Some frame\<rparr>
           in case att_filepath firmware of
                None \<Rightarrow> Inl TypeError
              | Some p \<Rightarrow>
                  (case getctime E p of
                     Inl e \<Rightarrow> Inl e
                   | Inr t \<Rightarrow>
                       Inr (firmware\<lparr>att_timestamp := Some t,
                                     att_format := Some firmware_format,
                                     att_firmware_version := firmware_version\<rparr>))))"

text \<open>Lines 260 to 269 and line 271.\<close>

definition file_platform_of :: "string \<Rightarrow> string \<Rightarrow> string" where
  "file_platform_of platform file =
     (case variant_firmware_regex_match file of
        Some variant \<Rightarrow> platform @ ''-'' @ variant
      | None \<Rightarrow> platform)"

definition firmware_format_of :: "string \<Rightarrow> string" where
  "firmware_format_of file = last (split_on CHR ''.'' file)"

text \<open>Lines 255 to 316: the body of the loop over the files of a platform directory.\<close>

definition add_file ::
  "env \<Rightarrow> string \<Rightarrow> string \<Rightarrow> string \<Rightarrow> string \<Rightarrow> string option \<Rightarrow> string \<Rightarrow> string \<Rightarrow> string
     \<Rightarrow> xfirmwares \<Rightarrow> exn + xfirmwares"
where
  "add_file E some_dir vehicletype releasetype git_sha firmware_version platform frame file
       firmware_data =
     (if file \<in> set [''git-version.txt'', ''firmware-version.txt'', ''files.html'']
      then Inr firmware_data
      else if startswith file ''.'' then Inr firmware_data
      else
        (let file_platform = file_platform_of platform file;
             firmware_format = firmware_format_of file;
             by_platform = get_or_new vehicletype [] firmware_data;
             by_sha = get_or_new file_platform [] by_platform;
             sha_dict = get_or_new git_sha [] by_sha;
             by_frame = get_or_new firmware_format [] sha_dict;
             firmware = get_or_new frame new_Firmware by_frame
         in case update_firmware E releasetype (path_join some_dir file) file_platform
                   vehicletype git_sha frame firmware_format firmware_version firmware of
              Inl e \<Rightarrow> Inl e
            | Inr firmware' \<Rightarrow>
                Inr (AList.update vehicletype
                      (AList.update file_platform
                        (AList.update git_sha
                          (AList.update firmware_format
                            (AList.update frame firmware' by_frame) sha_dict) by_sha)
                        by_platform) firmware_data)))"

fun add_files ::
  "env \<Rightarrow> string \<Rightarrow> string \<Rightarrow> string \<Rightarrow> string \<Rightarrow> string option \<Rightarrow> string \<Rightarrow> string
     \<Rightarrow> string list \<Rightarrow> xfirmwares \<Rightarrow> exn + xfirmwares"
where
  "add_files E some_dir vehicletype releasetype git_sha firmware_version platform frame []
       firmware_data = Inr firmware_data"
| "add_files E some_dir vehicletype releasetype git_sha firmware_version platform frame
       (file # files) firmware_data =
     (case add_file E some_dir vehicletype releasetype git_sha firmware_version platform frame
             file firmware_data of
        Inl e \<Rightarrow> Inl e
      | Inr firmware_data' \<Rightarrow>
          add_files E some_dir vehicletype releasetype git_sha firmware_version platform frame
            files firmware_data')"

text \<open>
  Lines 226 to 239: the firmware version of a platform directory, and the warning
  printed when there is none. \<^verbatim>\<open>ValueError\<close> is what unpacking a list of the wrong
  length raises.
\<close>

definition read_firmware_version :: "env \<Rightarrow> string \<Rightarrow> string option \<times> warning list" where
  "read_firmware_version E firmware_version_file =
     (case readfile E firmware_version_file of
        Inl e \<Rightarrow>
          (None, [if e = ValueError then Malformed_firmware_version firmware_version_file
                  else Bad_file firmware_version_file])
      | Inr content \<Rightarrow>
          (let firmware_version = strip content in
           if length (split_on CHR ''-'' firmware_version) = 2 then (Some firmware_version, [])
           else (None, [Malformed_firmware_version firmware_version_file])))"

text \<open>Lines 211 to 316: the body of the loop over the platform directories.\<close>

definition add_platformdir ::
  "env \<Rightarrow> string \<Rightarrow> string \<Rightarrow> string \<Rightarrow> string \<Rightarrow> xfirmwares \<Rightarrow> warning list
     \<Rightarrow> (exn + xfirmwares) \<times> warning list"
where
  "add_platformdir E dir vehicletype releasetype platformdir firmware_data lg =
     (if startswith platformdir ''.'' then (Inr firmware_data, lg)
      else
        (let some_dir = path_join dir platformdir in
         if \<not> isdir E some_dir then (Inr firmware_data, lg)
         else
           (let git_version_txt = path_join some_dir ''git-version.txt'' in
            if \<not> exists E git_version_txt then (Inr firmware_data, lg @ [No_file git_version_txt])
            else
              (case git_sha_from_git_version E git_version_txt of
                 Inl ex \<Rightarrow> (Inr firmware_data, lg @ [Failed_to_parse git_version_txt ex])
               | Inr git_sha \<Rightarrow>
                   (let firmware_version_file = path_join some_dir ''firmware-version.txt'';
                        (firmware_version, ws) = read_firmware_version E firmware_version_file;
                        (platform, frame) = infer_platform_frame platformdir vehicletype
                    in case listdir E some_dir of
                         Inl e \<Rightarrow> (Inl e, lg @ ws)
                       | Inr files \<Rightarrow>
                           (add_files E some_dir vehicletype releasetype git_sha
                              firmware_version platform frame files firmware_data,
                            lg @ ws))))))"

fun add_platformdirs ::
  "env \<Rightarrow> string \<Rightarrow> string \<Rightarrow> string \<Rightarrow> string list \<Rightarrow> xfirmwares \<Rightarrow> warning list
     \<Rightarrow> (exn + xfirmwares) \<times> warning list"
where
  "add_platformdirs E dir vehicletype releasetype [] firmware_data lg = (Inr firmware_data, lg)"
| "add_platformdirs E dir vehicletype releasetype (platformdir # dlist) firmware_data lg =
     (case add_platformdir E dir vehicletype releasetype platformdir firmware_data lg of
        (Inl e, lg') \<Rightarrow> (Inl e, lg')
      | (Inr firmware_data', lg') \<Rightarrow>
          add_platformdirs E dir vehicletype releasetype dlist firmware_data' lg')"

definition add_firmware_data_from_dir ::
  "env \<Rightarrow> string \<Rightarrow> xfirmwares \<Rightarrow> string \<Rightarrow> string \<Rightarrow> warning list
     \<Rightarrow> (exn + xfirmwares) \<times> warning list"
where
  "add_firmware_data_from_dir E dir firmware_data vehicletype releasetype lg =
     (if \<not> isdir E dir then (Inr firmware_data, lg)
      else
        (case listdir E dir of
           Inl e \<Rightarrow> (Inr firmware_data, lg @ [Error_listing dir])
         | Inr dlist \<Rightarrow> add_platformdirs E dir vehicletype releasetype dlist firmware_data lg))"

subsection \<open>The walk and the projection: \<^verbatim>\<open>walk_directory\<close>\<close>

definition xfirmwares_to_firmwares :: "xfirmwares \<Rightarrow> Firmware list" where
  "xfirmwares_to_firmwares xfirmwares =
     concat (map (\<lambda>by_platform.
       concat (map (\<lambda>by_sha.
         concat (map (\<lambda>sha_dict.
           concat (map (\<lambda>by_frame. map snd by_frame) (map snd sha_dict)))
           (map snd by_sha)))
         (map snd by_platform)))
       (map snd xfirmwares))"

text \<open>
  Lines 360 to 394: the body of the loop over the entries of a vehicle type's
  directory. For a name that is no release type, line 385 calls \<^verbatim>\<open>os.path.join\<close> on
  the list \<^verbatim>\<open>vdir\<close>, which raises \<^verbatim>\<open>TypeError\<close>.
\<close>

definition walk_firstlevel ::
  "env \<Rightarrow> string \<Rightarrow> string \<Rightarrow> string \<Rightarrow> xfirmwares \<Rightarrow> warning list
     \<Rightarrow> (exn + xfirmwares) \<times> warning list"
where
  "walk_firstlevel E basedir vehicletype firstlevel xfirmwares lg =
     (if firstlevel = ''files.html'' \<or> startswith firstlevel ''.'' then (Inr xfirmwares, lg)
      else if year_month_regex_match firstlevel then (Inr xfirmwares, lg)
      else
        (let tag = firstlevel in
         if \<not> valid_release_type tag then (Inl TypeError, lg)
         else
           (let tag_path = path_join3 basedir vehicletype tag in
            if \<not> isdir E tag_path then (Inr xfirmwares, lg)
            else add_firmware_data_from_dir E tag_path xfirmwares vehicletype tag lg)))"

fun walk_firstlevels ::
  "env \<Rightarrow> string \<Rightarrow> string \<Rightarrow> string list \<Rightarrow> xfirmwares \<Rightarrow> warning list
     \<Rightarrow> (exn + xfirmwares) \<times> warning list"
where
  "walk_firstlevels E basedir vehicletype [] xfirmwares lg = (Inr xfirmwares, lg)"
| "walk_firstlevels E basedir vehicletype (firstlevel # vdir) xfirmwares lg =
     (case walk_firstlevel E basedir vehicletype firstlevel xfirmwares lg of
        (Inl e, lg') \<Rightarrow> (Inl e, lg')
      | (Inr xfirmwares', lg') \<Rightarrow> walk_firstlevels E basedir vehicletype vdir xfirmwares' lg')"

text \<open>
  Lines 351 to 394: the loop over the vehicle types. The variable \<^verbatim>\<open>vdir\<close> outlives an
  iteration: when the listing fails with an \<^verbatim>\<open>errno\<close> other than 2 the handler falls
  through to the inner loop with the previous listing, or with no binding at all
  (\<open>None\<close>).
\<close>

fun walk_vehicletypes ::
  "env \<Rightarrow> string \<Rightarrow> string list \<Rightarrow> string list option \<Rightarrow> xfirmwares \<Rightarrow> warning list
     \<Rightarrow> (exn + xfirmwares) \<times> warning list"
where
  "walk_vehicletypes E basedir [] vdir xfirmwares lg = (Inr xfirmwares, lg)"
| "walk_vehicletypes E basedir (vehicletype # vehicletypes) vdir xfirmwares lg =
     (case (case listdir E (path_join basedir vehicletype) of
              Inr l \<Rightarrow> Inr (Some (Some (rev (sort l))))
            | Inl (OSError n) \<Rightarrow> if n = 2 then Inr None else Inr (Some vdir)
            | Inl e \<Rightarrow> Inl e) of
        Inl e \<Rightarrow> (Inl e, lg)
      | Inr None \<Rightarrow> walk_vehicletypes E basedir vehicletypes vdir xfirmwares lg
      | Inr (Some None) \<Rightarrow> (Inl UnboundLocalError, lg)
      | Inr (Some (Some vdir')) \<Rightarrow>
          (case walk_firstlevels E basedir vehicletype vdir' xfirmwares lg of
             (Inl e, lg') \<Rightarrow> (Inl e, lg')
           | (Inr xfirmwares', lg') \<Rightarrow>
               walk_vehicletypes E basedir vehicletypes (Some vdir') xfirmwares' lg'))"

text \<open>Lines 346 to 394: the first half of \<^verbatim>\<open>walk_directory\<close>, which fills \<^verbatim>\<open>xfirmwares\<close>.\<close>

definition accumulate :: "env \<Rightarrow> string \<Rightarrow> (exn + xfirmwares) \<times> warning list" where
  "accumulate E basedir = walk_vehicletypes E basedir FIRMWARE_TYPES None [] []"

definition opt_str :: "string option \<Rightarrow> json" where
  "opt_str x = (case x of None \<Rightarrow> JNull | Some s \<Rightarrow> JStr s)"

text \<open>
  Lines 401 to 425: the entry \<^verbatim>\<open>some_json\<close> of a record, before the USB identifiers
  are added. \<^verbatim>\<open>re.sub\<close> expands its template, then replaces the match of
  \<^verbatim>\<open>"^" + re.escape(basedir)\<close>, which can only be \<open>basedir\<close> at the start of the
  path. An empty firmware version is false on line 417, as \<^verbatim>\<open>None\<close> is.
\<close>

definition build_some_json :: "env \<Rightarrow> string \<Rightarrow> string \<Rightarrow> Firmware \<Rightarrow> exn + entry" where
  "build_some_json E basedir baseurl firmware =
     (case re_template E baseurl basedir of
        Inl e \<Rightarrow> Inl e
      | Inr repl \<Rightarrow>
     (case att_filepath firmware of
        None \<Rightarrow> Inl TypeError
      | Some filepath \<Rightarrow>
     (let url = (if startswith filepath basedir then repl @ drop (length basedir) filepath
                 else filepath) in
     (case att_release_type firmware of
        None \<Rightarrow> Inl AttributeError
      | Some release_type \<Rightarrow>
     (let version_type = releasetype_map E release_type in
     (case att_latest firmware of
        None \<Rightarrow> Inl (KeyError ''latest'')
      | Some latest \<Rightarrow>
     (case att_format firmware of
        None \<Rightarrow> Inl (KeyError ''format'')
      | Some fmt \<Rightarrow>
     (let some_json =
            [(''mav-autopilot'', JStr ''ARDUPILOTMEGA''),
             (''platform'', opt_str (att_platform firmware)),
             (''git-sha'', opt_str (att_git_sha firmware)),
             (''url'', JStr url),
             (''mav-type'', opt_str (map_option frame_map (att_frame firmware))),
             (''mav-firmware-version-type'', JStr version_type),
             (''latest'', JInt latest),
             (''format'', JStr fmt)]
      in
     (case att_firmware_version firmware of
        None \<Rightarrow> Inr some_json
      | Some version \<Rightarrow>
          if version = [] then Inr some_json
          else
            (case parse_fw_version version of
               Inl e \<Rightarrow> Inl e
             | Inr (major, minor, patch, release_type) \<Rightarrow>
                 Inr (AList.update ''mav-firmware-version-patch'' (JStr patch)
                       (AList.update ''mav-firmware-version-minor'' (JStr minor)
                         (AList.update ''mav-firmware-version-major'' (JStr major)
                           (AList.update ''mav-firmware-version''
                              (JStr (major @ ''.'' @ minor @ ''.'' @ patch))
                              some_json))))))))))))))"

text \<open>Lines 401 to 427: the body of the loop over the flattened records.\<close>

definition project_firmware ::
  "env \<Rightarrow> string \<Rightarrow> string \<Rightarrow> Firmware \<Rightarrow> warning list \<Rightarrow> (exn + entry) \<times> warning list"
where
  "project_firmware E basedir baseurl firmware lg =
     (case build_some_json E basedir baseurl firmware of
        Inl e \<Rightarrow> (Inl e, lg)
      | Inr some_json \<Rightarrow> add_USB_IDs E basedir baseurl some_json lg)"

fun project_firmwares ::
  "env \<Rightarrow> string \<Rightarrow> string \<Rightarrow> Firmware list \<Rightarrow> warning list \<Rightarrow> (exn + entry list) \<times> warning list"
where
  "project_firmwares E basedir baseurl [] lg = (Inr [], lg)"
| "project_firmwares E basedir baseurl (firmware # firmwares) lg =
     (case project_firmware E basedir baseurl firmware lg of
        (Inl e, lg') \<Rightarrow> (Inl e, lg')
      | (Inr some_json, lg') \<Rightarrow>
          (case project_firmwares E basedir baseurl firmwares lg' of
             (Inl e, lg'') \<Rightarrow> (Inl e, lg'')
           | (Inr firmware_json, lg'') \<Rightarrow> (Inr (some_json # firmware_json), lg'')))"

text \<open>
  \<^verbatim>\<open>walk_directory\<close> is called with \<^verbatim>\<open>self.basedir\<close> (line 445), so one \<open>basedir\<close> serves
  as the argument and as the attribute. The result is the manifest, or the exception
  that ended the run, with the warnings printed up to then.
\<close>

definition walk_directory :: "env \<Rightarrow> string \<Rightarrow> string \<Rightarrow> (exn + json) \<times> warning list" where
  "walk_directory E basedir baseurl =
     (case accumulate E basedir of
        (Inl e, lg) \<Rightarrow> (Inl e, lg)
      | (Inr xfirmwares, lg) \<Rightarrow>
          (case project_firmwares E basedir baseurl (xfirmwares_to_firmwares xfirmwares) lg of
             (Inl e, lg') \<Rightarrow> (Inl e, lg')
           | (Inr firmware_json, lg') \<Rightarrow>
               (Inr (JDict [(''format-version'', JStr ''1.0.0''),
                            (''firmware'', JList (map JDict firmware_json))]),
                lg')))"

subsection \<open>Example trees\<close>

text \<open>
  \<^verbatim>\<open>str.upper\<close> on the strings whose upper case has code points below 256: the letters
  \<^verbatim>\<open>a\<close> to \<^verbatim>\<open>z\<close> and those from U+00E0 to U+00FE (but the division sign U+00F7) move
  down by 32, and the sharp s U+00DF becomes \<^verbatim>\<open>SS\<close>. The capitals of U+00B5 and U+00FF
  lie beyond 255; the example trees hold neither.
\<close>

definition latin1_upper_char :: "char \<Rightarrow> string" where
  "latin1_upper_char c =
     (let n = (of_char c :: nat) in
      if (97 \<le> n \<and> n \<le> 122) \<or> (224 \<le> n \<and> n \<le> 246) \<or> (248 \<le> n \<and> n \<le> 254)
      then [char_of (n - 32)]
      else if n = 223 then ''SS''
      else [c])"

definition latin1_upper :: "string \<Rightarrow> string" where
  "latin1_upper s = concat (map latin1_upper_char s)"

text \<open>
  An environment made of a table of directories with their listings, a table of files
  with their contents, and a table of the files that hold JSON with what they parse
  to. Every path of the tables has a creation time; a replacement template is taken
  literally.
\<close>

definition tree_env ::
  "(string \<times> string list) list \<Rightarrow> (string \<times> string) list \<Rightarrow> (string \<times> json) list \<Rightarrow> env"
where
  "tree_env dirs files jsons =
     \<lparr>isdir = (\<lambda>p. map_of dirs p \<noteq> None),
      exists = (\<lambda>p. p \<in> set (map fst dirs @ map fst files)),
      listdir = (\<lambda>p. case map_of dirs p of
                        Some l \<Rightarrow> Inr l
                      | None \<Rightarrow> Inl (OSError (if map_of files p \<noteq> None then 20 else 2))),
      readfile = (\<lambda>p. case map_of files p of
                         Some c \<Rightarrow> Inr c
                       | None \<Rightarrow> Inl (OSError (if map_of dirs p \<noteq> None then 21 else 2))),
      getctime = (\<lambda>p. if p \<in> set (map fst dirs @ map fst files) then Inr 0
                       else Inl (OSError 2)),
      json_load = (\<lambda>p. case map_of jsons p of
                          Some j \<Rightarrow> Inr j
                        | None \<Rightarrow> if map_of files p \<noteq> None then Inl ValueError
                                  else Inl (OSError 2)),
      re_template = (\<lambda>repl matched. Inr repl),
      str_upper = latin1_upper\<rparr>"

text \<open>
  \<^verbatim>\<open>/b/Copter/latest/navio\<close> and \<^verbatim>\<open>/b/Copter/stable/navio\<close> hold the same build
  (the same commit, the same file name).
\<close>

definition two_channels :: env where
  "two_channels =
     tree_env
       [(''/b'', [''Copter'']),
        (''/b/Copter'', [''latest'', ''stable'']),
        (''/b/Copter/latest'', [''navio'']),
        (''/b/Copter/stable'', [''navio'']),
        (''/b/Copter/latest/navio'', [''git-version.txt'', ''ArduCopter.elf'']),
        (''/b/Copter/stable/navio'', [''git-version.txt'', ''ArduCopter.elf''])]
       [(''/b/Copter/latest/navio/git-version.txt'', ''commit abc123''),
        (''/b/Copter/latest/navio/ArduCopter.elf'', ''ELF''),
        (''/b/Copter/stable/navio/git-version.txt'', ''commit abc123''),
        (''/b/Copter/stable/navio/ArduCopter.elf'', ''ELF'')]
       []"

text \<open>
  \<^verbatim>\<open>/b/Copter/stable\<close> and \<^verbatim>\<open>/b/Copter/stable-1.2.3\<close> hold the same build.
\<close>

definition two_stables :: env where
  "two_stables =
     tree_env
       [(''/b'', [''Copter'']),
        (''/b/Copter'', [''stable'', ''stable-1.2.3'']),
        (''/b/Copter/stable'', [''navio'']),
        (''/b/Copter/stable-1.2.3'', [''navio'']),
        (''/b/Copter/stable/navio'', [''git-version.txt'', ''ArduCopter.elf'']),
        (''/b/Copter/stable-1.2.3/navio'', [''git-version.txt'', ''ArduCopter.elf''])]
       [(''/b/Copter/stable/navio/git-version.txt'', ''commit abc123''),
        (''/b/Copter/stable/navio/ArduCopter.elf'', ''ELF''),
        (''/b/Copter/stable-1.2.3/navio/git-version.txt'', ''commit abc123''),
        (''/b/Copter/stable-1.2.3/navio/ArduCopter.elf'', ''ELF'')]
       []"

subsection \<open>Reading the table\<close>

text \<open>
  \<^verbatim>\<open>firmware_data[vehicletype][file_platform][git_sha][firmware_format][frame]\<close>, with
  \<open>None\<close> for a missing key.
\<close>

definition lookup_firmware ::
  "xfirmwares \<Rightarrow> string \<Rightarrow> string \<Rightarrow> string \<Rightarrow> string \<Rightarrow> string \<Rightarrow> Firmware option"
where
  "lookup_firmware firmware_data vehicletype file_platform git_sha firmware_format frame =
     (case map_of firmware_data vehicletype of
        None \<Rightarrow> None
      | Some by_platform \<Rightarrow>
          (case map_of by_platform file_platform of
             None \<Rightarrow> None
           | Some by_sha \<Rightarrow>
               (case map_of by_sha git_sha of
                  None \<Rightarrow> None
                | Some sha_dict \<Rightarrow>
                    (case map_of sha_dict firmware_format of
                       None \<Rightarrow> None
                     | Some by_frame \<Rightarrow> map_of by_frame frame))))"

text \<open>
  The two halves of lines 273 to 289 of \<^const>\<open>add_file\<close>: the record the keys lead
  to (a new one when a key is missing), and the table with a record written back.
\<close>

definition firmware_at ::
  "xfirmwares \<Rightarrow> string \<Rightarrow> string \<Rightarrow> string \<Rightarrow> string \<Rightarrow> string \<Rightarrow> Firmware"
where
  "firmware_at firmware_data vehicletype file_platform git_sha firmware_format frame =
     get_or_new frame new_Firmware
       (get_or_new firmware_format []
         (get_or_new git_sha []
           (get_or_new file_platform []
             (get_or_new vehicletype [] firmware_data))))"

definition store_firmware ::
  "xfirmwares \<Rightarrow> string \<Rightarrow> string \<Rightarrow> string \<Rightarrow> string \<Rightarrow> string \<Rightarrow> Firmware \<Rightarrow> xfirmwares"
where
  "store_firmware firmware_data vehicletype file_platform git_sha firmware_format frame firmware =
     (let by_platform = get_or_new vehicletype [] firmware_data;
          by_sha = get_or_new file_platform [] by_platform;
          sha_dict = get_or_new git_sha [] by_sha;
          by_frame = get_or_new firmware_format [] sha_dict
      in AList.update vehicletype
           (AList.update file_platform
             (AList.update git_sha
               (AList.update firmware_format
                 (AList.update frame firmware by_frame) sha_dict) by_sha)
             by_platform) firmware_data)"

text \<open>The files that the loop over a platform directory passes over (lines 255 to 258).\<close>

definition skipped_file :: "string \<Rightarrow> bool" where
  "skipped_file file =
     (file \<in> set [''git-version.txt'', ''firmware-version.txt'', ''files.html'']
      \<or> startswith file ''.'')"

text \<open>
  \<^verbatim>\<open>/b/Copter/stable/navio\<close> has no \<^verbatim>\<open>git-version.txt\<close>; the one of
  \<^verbatim>\<open>/b/Copter/stable/pxf\<close> names no commit; the hidden directory
  \<^verbatim>\<open>/b/Copter/stable/.old\<close> has no \<^verbatim>\<open>git-version.txt\<close> either.
\<close>

definition no_descriptor :: env where
  "no_descriptor =
     tree_env
       [(''/b'', [''Copter'']),
        (''/b/Copter'', [''stable'']),
        (''/b/Copter/stable'', [''navio'', ''pxf'', ''.old'']),
        (''/b/Copter/stable/navio'', [''ArduCopter.elf'']),
        (''/b/Copter/stable/pxf'', [''git-version.txt'', ''ArduCopter.elf'']),
        (''/b/Copter/stable/.old'', [''ArduCopter.elf''])]
       [(''/b/Copter/stable/navio/ArduCopter.elf'', ''ELF''),
        (''/b/Copter/stable/pxf/git-version.txt'', ''version unknown''),
        (''/b/Copter/stable/pxf/ArduCopter.elf'', ''ELF''),
        (''/b/Copter/stable/.old/ArduCopter.elf'', ''ELF'')]
       []"

text \<open>
  A build whose \<^verbatim>\<open>firmware-version.txt\<close> holds \<open>version\<close>, with one firmware file
  \<open>file\<close> in the platform directory \<^verbatim>\<open>/b/Copter/stable/\<close>\<open>platformdir\<close>; \<open>jsons\<close> is the
  table of the files that hold JSON.
\<close>

definition one_build :: "string \<Rightarrow> string \<Rightarrow> string \<Rightarrow> (string \<times> json) list \<Rightarrow> env" where
  "one_build platformdir version file jsons =
     tree_env
       [(''/b'', [''Copter'']),
        (''/b/Copter'', [''stable'']),
        (''/b/Copter/stable'', [platformdir]),
        (''/b/Copter/stable/'' @ platformdir,
           [''git-version.txt'', ''firmware-version.txt'', file])]
       [(''/b/Copter/stable/'' @ platformdir @ ''/git-version.txt'', ''commit deadbeef''),
        (''/b/Copter/stable/'' @ platformdir @ ''/firmware-version.txt'', version),
        (''/b/Copter/stable/'' @ platformdir @ ''/'' @ file, ''firmware'')]
       jsons"

subsection \<open>Predicates on the table\<close>

text \<open>
  The creation time of every path that a record of the table holds can be read: what
  line 314 needs when a \<^verbatim>\<open>dev\<close> visit keeps an older path.
\<close>

definition ctimes_readable :: "env \<Rightarrow> xfirmwares \<Rightarrow> bool" where
  "ctimes_readable E firmware_data =
     list_all (\<lambda>fw. case att_filepath fw of
                       None \<Rightarrow> True
                     | Some p \<Rightarrow> \<not> isl (getctime E p))
       (xfirmwares_to_firmwares firmware_data)"

text \<open>
  A record as lines 310 to 316 leave it: the seven refreshed fields hold the values of
  the visit, and the path, the release type and the latest flag are set.
\<close>

definition refreshed ::
  "string \<Rightarrow> string \<Rightarrow> string \<Rightarrow> string \<Rightarrow> string \<Rightarrow> string option \<Rightarrow> Firmware \<Rightarrow> bool"
where
  "refreshed vehicletype file_platform git_sha firmware_format frame firmware_version fw =
     (att_platform fw = Some file_platform \<and> att_vehicletype fw = Some vehicletype
      \<and> att_git_sha fw = Some git_sha \<and> att_frame fw = Some frame
      \<and> att_format fw = Some firmware_format \<and> att_firmware_version fw = firmware_version
      \<and> att_timestamp fw \<noteq> None \<and> att_filepath fw \<noteq> None
      \<and> att_release_type fw \<noteq> None \<and> att_latest fw \<noteq> None)"

text \<open>The values of a dictionary, each flattened by \<open>g\<close>, one after the other.\<close>

definition values_concat :: "('v \<Rightarrow> 'a list) \<Rightarrow> 'v dict \<Rightarrow> 'a list" where
  "values_concat g d = concat (map g (map snd d))"

text \<open>The table holds a record under these keys, and the record is \<^const>\<open>refreshed\<close>.\<close>

definition has_refreshed ::
  "xfirmwares \<Rightarrow> string \<Rightarrow> string \<Rightarrow> string \<Rightarrow> string \<Rightarrow> string \<Rightarrow> string option \<Rightarrow> bool"
where
  "has_refreshed firmware_data vehicletype file_platform git_sha firmware_format frame
       firmware_version =
     (case lookup_firmware firmware_data vehicletype file_platform git_sha firmware_format frame of
        None \<Rightarrow> False
      | Some fw \<Rightarrow>
          refreshed vehicletype file_platform git_sha firmware_format frame firmware_version fw)"

text \<open>
  Every firmware version that a record of the table holds splits on the dash into two
  parts: what line 231 has checked before the version reaches a record.
\<close>

definition versions_split :: "xfirmwares \<Rightarrow> bool" where
  "versions_split firmware_data =
     list_all (\<lambda>fw. case att_firmware_version fw of
                       None \<Rightarrow> True
                     | Some v \<Rightarrow> length (split_on CHR ''-'' v) = 2)
       (xfirmwares_to_firmwares firmware_data)"

text \<open>
  The tree of the round trip: \<^verbatim>\<open>Copter/stable/navio-quad\<close> with the version
  \<^verbatim>\<open>3.6.0-official\<close> and \<^verbatim>\<open>ArduCopter.apj\<close>, whose JSON holds the board id 9.
\<close>

definition round_trip :: env where
  "round_trip =
     one_build ''navio-quad'' ''3.6.0-official'' ''ArduCopter.apj''
       [(''/b/Copter/stable/navio-quad/ArduCopter.apj'', JDict [(''board_id'', JInt 9)])]"

text \<open>\<^verbatim>\<open>Copter/stable/PX4\<close> with \<^verbatim>\<open>ArduCopter-v1.px4\<close>.\<close>

definition px4_build :: env where
  "px4_build = one_build ''PX4'' ''3.6.0-official'' ''ArduCopter-v1.px4'' []"

text \<open>A version with two numbers only: \<^verbatim>\<open>3.6-official\<close>.\<close>

definition short_version :: env where
  "short_version = one_build ''navio'' ''3.6-official'' ''ArduCopter.elf'' []"

text \<open>
  \<^verbatim>\<open>/b/Copter/latest/navio\<close> and \<^verbatim>\<open>/b/Copter/beta/navio\<close> hold the same build. The
  walk sorts the channels in reverse, so it visits \<^verbatim>\<open>latest\<close> before \<^verbatim>\<open>beta\<close>.
\<close>

definition latest_and_beta :: env where
  "latest_and_beta =
     tree_env
       [(''/b'', [''Copter'']),
        (''/b/Copter'', [''beta'', ''latest'']),
        (''/b/Copter/latest'', [''navio'']),
        (''/b/Copter/beta'', [''navio'']),
        (''/b/Copter/latest/navio'', [''git-version.txt'', ''ArduCopter.elf'']),
        (''/b/Copter/beta/navio'', [''git-version.txt'', ''ArduCopter.elf''])]
       [(''/b/Copter/latest/navio/git-version.txt'', ''commit abc123''),
        (''/b/Copter/latest/navio/ArduCopter.elf'', ''ELF''),
        (''/b/Copter/beta/navio/git-version.txt'', ''commit abc123''),
        (''/b/Copter/beta/navio/ArduCopter.elf'', ''ELF'')]
       []"

section \<open>Properties\<close>

subsection \<open>The table\<close>

lemma map_of_update_if:
  "map_of (AList.update k v d) k' = (if k' = k then Some v else map_of d k')"
  by (simp add: update_conv')

lemma add_file_skipped:
  "skipped_file file \<Longrightarrow>
   add_file E some_dir vehicletype releasetype git_sha firmware_version platform frame file fd
     = Inr fd"
  by (auto simp: add_file_def skipped_file_def)

lemma add_file_eq:
  "\<not> skipped_file file \<Longrightarrow>
   add_file E some_dir vehicletype releasetype git_sha firmware_version platform frame file fd =
     (case update_firmware E releasetype (path_join some_dir file)
             (file_platform_of platform file) vehicletype git_sha frame
             (firmware_format_of file) firmware_version
             (firmware_at fd vehicletype (file_platform_of platform file) git_sha
                (firmware_format_of file) frame) of
        Inl e \<Rightarrow> Inl e
      | Inr fw \<Rightarrow>
          Inr (store_firmware fd vehicletype (file_platform_of platform file) git_sha
                 (firmware_format_of file) frame fw))"
  by (simp add: add_file_def skipped_file_def firmware_at_def store_firmware_def Let_def
           split: sum.splits)

lemma map_of_get_or_new:
  "map_of (get_or_new k [] d) k' = (case map_of d k of None \<Rightarrow> None | Some e \<Rightarrow> map_of e k')"
  by (simp add: get_or_new_def split: option.splits)

lemma lookup_firmware_alt:
  "lookup_firmware fd vt fp sha fmt fr =
     map_of (get_or_new fmt [] (get_or_new sha [] (get_or_new fp [] (get_or_new vt [] fd)))) fr"
proof (cases "map_of fd vt")
  case None
  then show ?thesis by (simp add: lookup_firmware_def get_or_new_def)
next
  case a: (Some a)
  show ?thesis
  proof (cases "map_of a fp")
    case None
    with a show ?thesis by (simp add: lookup_firmware_def get_or_new_def)
  next
    case b: (Some b)
    show ?thesis
    proof (cases "map_of b sha")
      case None
      with a b show ?thesis by (simp add: lookup_firmware_def get_or_new_def)
    next
      case c: (Some c)
      show ?thesis
      proof (cases "map_of c fmt")
        case None
        with a b c show ?thesis by (simp add: lookup_firmware_def get_or_new_def)
      next
        case (Some d)
        with a b c show ?thesis by (simp add: lookup_firmware_def get_or_new_def)
      qed
    qed
  qed
qed

lemma firmware_at_lookup:
  "firmware_at fd vt fp sha fmt fr =
     (case lookup_firmware fd vt fp sha fmt fr of None \<Rightarrow> new_Firmware | Some fw \<Rightarrow> fw)"
  unfolding lookup_firmware_alt firmware_at_def
  by (simp add: get_or_new_def[of fr])

lemma get_or_new_update_same: "get_or_new k v (AList.update k w d) = w"
  by (simp add: get_or_new_def map_of_update_if)

lemma get_or_new_update_other: "k' \<noteq> k \<Longrightarrow> get_or_new k' v (AList.update k w d) = get_or_new k' v d"
  by (simp add: get_or_new_def map_of_update_if)

lemma lookup_store_same:
  "lookup_firmware (store_firmware fd vt fp sha fmt fr fw) vt fp sha fmt fr = Some fw"
  unfolding lookup_firmware_alt store_firmware_def Let_def
  by (simp add: get_or_new_update_same map_of_update_if)

lemma lookup_store_other:
  assumes "(vt', fp', sha', fmt', fr') \<noteq> (vt, fp, sha, fmt, fr)"
  shows "lookup_firmware (store_firmware fd vt fp sha fmt fr fw) vt' fp' sha' fmt' fr'
     = lookup_firmware fd vt' fp' sha' fmt' fr'"
proof -
  consider "vt' \<noteq> vt" | "vt' = vt" "fp' \<noteq> fp" | "vt' = vt" "fp' = fp" "sha' \<noteq> sha"
    | "vt' = vt" "fp' = fp" "sha' = sha" "fmt' \<noteq> fmt"
    | "vt' = vt" "fp' = fp" "sha' = sha" "fmt' = fmt" "fr' \<noteq> fr"
    using assms by auto
  then show ?thesis
  proof cases
    case 1
    then show ?thesis unfolding lookup_firmware_alt store_firmware_def Let_def
      by (simp add: get_or_new_update_other)
  next
    case 2
    then show ?thesis unfolding lookup_firmware_alt store_firmware_def Let_def
      by (simp add: get_or_new_update_same get_or_new_update_other)
  next
    case 3
    then show ?thesis unfolding lookup_firmware_alt store_firmware_def Let_def
      by (simp add: get_or_new_update_same get_or_new_update_other)
  next
    case 4
    then show ?thesis unfolding lookup_firmware_alt store_firmware_def Let_def
      by (simp add: get_or_new_update_same get_or_new_update_other)
  next
    case 5
    then show ?thesis unfolding lookup_firmware_alt store_firmware_def Let_def
      by (simp add: get_or_new_update_same get_or_new_update_other map_of_update_if)
  qed
qed

subsection \<open>One visit of a record\<close>

lemma set_release_not_latest:
  "releasetype \<noteq> ''latest'' \<Longrightarrow>
   \<exists>fw'. set_release releasetype path fw = Inr fw' \<and> att_latest fw' = Some 0"
  by (simp add: set_release_def Let_def)

lemma set_release_other:
  "releasetype \<noteq> ''dev'' \<Longrightarrow> releasetype \<noteq> ''latest'' \<Longrightarrow>
   set_release releasetype path fw =
     Inr (fw\<lparr>att_latest := Some 0, att_filepath := Some path,
              att_release_type := Some releasetype\<rparr>)"
  by (simp add: set_release_def Let_def)

lemma update_firmware_other:
  "releasetype \<noteq> ''dev'' \<Longrightarrow> releasetype \<noteq> ''latest'' \<Longrightarrow> getctime E path = Inr t \<Longrightarrow>
   update_firmware E releasetype path file_platform vehicletype git_sha frame firmware_format
       firmware_version fw =
     Inr (fw\<lparr>att_latest := Some 0, att_filepath := Some path,
              att_release_type := Some releasetype, att_platform := Some file_platform,
              att_vehicletype := Some vehicletype, att_git_sha := Some git_sha,
              att_frame := Some frame, att_timestamp := Some t,
              att_format := Some firmware_format,
              att_firmware_version := firmware_version\<rparr>)"
  by (simp add: update_firmware_def set_release_other Let_def)

text \<open>
  C1. The claim: a record visited through \<^verbatim>\<open>latest\<close> and then through \<^verbatim>\<open>stable\<close> ends
  with \<^verbatim>\<open>latest = 1\<close> and the path of the \<^verbatim>\<open>latest\<close> file. The script at that input:
  the visit from \<^verbatim>\<open>/b/Copter/latest\<close> leaves the flag at 1 and the path of the
  \<^verbatim>\<open>latest\<close> file; the visit from \<^verbatim>\<open>/b/Copter/stable\<close> of the same build then starts
  with line 294, which puts the flag back to 0, so the test of line 306 succeeds and
  the path becomes the one of the \<^verbatim>\<open>stable\<close> file. The record ends with the flag 0
  and the \<^verbatim>\<open>stable\<close> path.
\<close>

theorem latest_then_stable_run:
  "add_firmware_data_from_dir two_channels ''/b/Copter/latest'' [] ''Copter'' ''latest'' [] =
     (Inr [(''Copter'', [(''navio'', [(''abc123'', [(''elf'', [(''Copter'',
        \<lparr>att_date = None, att_platform = Some ''navio'', att_vehicletype = Some ''Copter'',
         att_filepath = Some ''/b/Copter/latest/navio/ArduCopter.elf'',
         att_git_sha = Some ''abc123'', att_frame = Some ''Copter'',
         att_release_type = Some ''dev'', att_firmware_version = None,
         att_latest = Some 1, att_timestamp = Some 0, att_format = Some ''elf''\<rparr>)])])])])],
      [Bad_file ''/b/Copter/latest/navio/firmware-version.txt''])
   \<and> add_firmware_data_from_dir two_channels ''/b/Copter/stable''
       [(''Copter'', [(''navio'', [(''abc123'', [(''elf'', [(''Copter'',
        \<lparr>att_date = None, att_platform = Some ''navio'', att_vehicletype = Some ''Copter'',
         att_filepath = Some ''/b/Copter/latest/navio/ArduCopter.elf'',
         att_git_sha = Some ''abc123'', att_frame = Some ''Copter'',
         att_release_type = Some ''dev'', att_firmware_version = None,
         att_latest = Some 1, att_timestamp = Some 0, att_format = Some ''elf''\<rparr>)])])])])]
       ''Copter'' ''stable'' [] =
     (Inr [(''Copter'', [(''navio'', [(''abc123'', [(''elf'', [(''Copter'',
        \<lparr>att_date = None, att_platform = Some ''navio'', att_vehicletype = Some ''Copter'',
         att_filepath = Some ''/b/Copter/stable/navio/ArduCopter.elf'',
         att_git_sha = Some ''abc123'', att_frame = Some ''Copter'',
         att_release_type = Some ''stable'', att_firmware_version = None,
         att_latest = Some 0, att_timestamp = Some 0, att_format = Some ''elf''\<rparr>)])])])])],
      [Bad_file ''/b/Copter/stable/navio/firmware-version.txt''])"
  by code_simp

text \<open>
  The same reset in a whole run: the walk visits \<^verbatim>\<open>latest\<close> and then \<^verbatim>\<open>beta\<close>, and the
  entry of the build they share is no longer the latest one.
\<close>

lemma latest_then_beta_walk:
  "walk_directory latest_and_beta ''/b'' ''http://fw'' =
     (Inr (JDict
        [(''format-version'', JStr ''1.0.0''),
         (''firmware'', JList [JDict
            [(''mav-autopilot'', JStr ''ARDUPILOTMEGA''),
             (''platform'', JStr ''navio''),
             (''git-sha'', JStr ''abc123''),
             (''url'', JStr ''http://fw/Copter/beta/navio/ArduCopter.elf''),
             (''mav-type'', JStr ''Copter''),
             (''mav-firmware-version-type'', JStr ''BETA''),
             (''latest'', JInt 0), (''format'', JStr ''elf'')]])]),
      [Bad_file ''/b/Copter/latest/navio/firmware-version.txt'',
       Bad_file ''/b/Copter/beta/navio/firmware-version.txt''])"
  by code_simp

text \<open>
  C2. The claim: a visit with the channel \<^verbatim>\<open>dev\<close> (the default of the parameter
  \<^verbatim>\<open>releasetype\<close>) fills the path and the release type only when they are unset and
  leaves the latest flag of an existing record as it was. The script at a record that
  a visit from \<^verbatim>\<open>latest\<close> has left with the flag 1: the \<^verbatim>\<open>dev\<close> visit keeps the path
  and the release type, as claimed, and line 294 puts the flag to 0.
\<close>

theorem latest_then_dev_run:
  "add_firmware_data_from_dir two_channels ''/b/Copter/stable''
       [(''Copter'', [(''navio'', [(''abc123'', [(''elf'', [(''Copter'',
        \<lparr>att_date = None, att_platform = Some ''navio'', att_vehicletype = Some ''Copter'',
         att_filepath = Some ''/b/Copter/latest/navio/ArduCopter.elf'',
         att_git_sha = Some ''abc123'', att_frame = Some ''Copter'',
         att_release_type = Some ''dev'', att_firmware_version = None,
         att_latest = Some 1, att_timestamp = Some 0, att_format = Some ''elf''\<rparr>)])])])])]
       ''Copter'' ''dev'' [] =
     (Inr [(''Copter'', [(''navio'', [(''abc123'', [(''elf'', [(''Copter'',
        \<lparr>att_date = None, att_platform = Some ''navio'', att_vehicletype = Some ''Copter'',
         att_filepath = Some ''/b/Copter/latest/navio/ArduCopter.elf'',
         att_git_sha = Some ''abc123'', att_frame = Some ''Copter'',
         att_release_type = Some ''dev'', att_firmware_version = None,
         att_latest = Some 0, att_timestamp = Some 0, att_format = Some ''elf''\<rparr>)])])])])],
      [Bad_file ''/b/Copter/stable/navio/firmware-version.txt''])"
  by code_simp

text \<open>
  The part of C2 that the script keeps: a \<^verbatim>\<open>dev\<close> visit never replaces a path or a
  release type that is set.
\<close>

lemma set_release_dev_keeps:
  "\<exists>fw'. set_release ''dev'' path fw = Inr fw'
     \<and> att_filepath fw' = (case att_filepath fw of None \<Rightarrow> Some path | Some p \<Rightarrow> Some p)
     \<and> att_release_type fw' =
         (case att_release_type fw of None \<Rightarrow> Some ''dev'' | Some r \<Rightarrow> Some r)"
  by (simp add: set_release_def Let_def split: option.splits)

text \<open>
  C3. A visit by a channel other than \<^verbatim>\<open>dev\<close> and \<^verbatim>\<open>latest\<close> sets the release type of
  the record to the name of the channel, whatever the table held before; so when the
  same file name of the same build is visited by one such channel and then by another
  (\<^verbatim>\<open>stable\<close>, then \<^verbatim>\<open>stable-1.2.3\<close>), the record ends with the release type of the
  second. The creation time of the two files is taken to be readable.
\<close>

theorem release_type_last_processed_wins:
  assumes "rt1 \<noteq> ''dev''" "rt1 \<noteq> ''latest''" "rt2 \<noteq> ''dev''" "rt2 \<noteq> ''latest''"
    and "\<not> skipped_file file"
    and "getctime E (path_join dir1 file) = Inr t1"
    and "getctime E (path_join dir2 file) = Inr t2"
  shows "\<exists>fd1 fd2 fw1 fw2.
      add_file E dir1 vt rt1 sha fv1 platform frame file fd = Inr fd1
    \<and> lookup_firmware fd1 vt (file_platform_of platform file) sha (firmware_format_of file) frame
         = Some fw1
    \<and> att_release_type fw1 = Some rt1
    \<and> add_file E dir2 vt rt2 sha fv2 platform frame file fd1 = Inr fd2
    \<and> lookup_firmware fd2 vt (file_platform_of platform file) sha (firmware_format_of file) frame
         = Some fw2
    \<and> att_release_type fw2 = Some rt2"
  using assms
  by (simp add: add_file_eq update_firmware_other lookup_store_same)

theorem release_type_last_processed_wins_witness:
  "\<exists>fd1 fd2 fw1 fw2.
      add_file two_stables ''/b/Copter/stable/navio'' ''Copter'' ''stable'' ''abc123'' None
        ''navio'' ''Copter'' ''ArduCopter.elf'' [] = Inr fd1
    \<and> lookup_firmware fd1 ''Copter'' (file_platform_of ''navio'' ''ArduCopter.elf'') ''abc123''
         (firmware_format_of ''ArduCopter.elf'') ''Copter'' = Some fw1
    \<and> att_release_type fw1 = Some ''stable''
    \<and> add_file two_stables ''/b/Copter/stable-1.2.3/navio'' ''Copter'' ''stable-1.2.3'' ''abc123''
        None ''navio'' ''Copter'' ''ArduCopter.elf'' fd1 = Inr fd2
    \<and> lookup_firmware fd2 ''Copter'' (file_platform_of ''navio'' ''ArduCopter.elf'') ''abc123''
         (firmware_format_of ''ArduCopter.elf'') ''Copter'' = Some fw2
    \<and> att_release_type fw2 = Some ''stable-1.2.3''"
proof -
  have a: "\<not> skipped_file ''ArduCopter.elf''"
    by code_simp
  have b: "getctime two_stables (path_join ''/b/Copter/stable/navio'' ''ArduCopter.elf'') = Inr 0"
    by code_simp
  have c: "getctime two_stables (path_join ''/b/Copter/stable-1.2.3/navio'' ''ArduCopter.elf'')
             = Inr 0"
    by code_simp
  show ?thesis
    by (rule release_type_last_processed_wins [OF _ _ _ _ a b c]) simp_all
qed

text \<open>The same on the directories: \<^verbatim>\<open>stable\<close>, then \<^verbatim>\<open>stable-1.2.3\<close>.\<close>

lemma stable_then_numbered_stable_run:
  "(case add_firmware_data_from_dir two_stables ''/b/Copter/stable'' [] ''Copter'' ''stable'' [] of
      (Inl e, lg) \<Rightarrow> None
    | (Inr fd, lg) \<Rightarrow>
        (case add_firmware_data_from_dir two_stables ''/b/Copter/stable-1.2.3'' fd ''Copter''
                ''stable-1.2.3'' lg of
           (Inl e, lg') \<Rightarrow> None
         | (Inr fd', lg') \<Rightarrow>
             Some (map att_release_type (xfirmwares_to_firmwares fd'))))
   = Some [Some ''stable-1.2.3'']"
  by code_simp

subsection \<open>Platform and frame\<close>

lemma find_board:
  "board \<in> {''PX4'', ''navio'', ''pxf''} \<Longrightarrow>
   find (startswith (board @ rest)) boards = Some board"
  by (auto simp: boards_def startswith_def)

lemma find_no_board:
  "\<forall>board \<in> {''PX4'', ''navio'', ''pxf''}. \<not> startswith name board \<Longrightarrow>
   find (startswith name) boards = None"
  by (auto simp: boards_def)

lemma takeWhile_upto:
  "x \<notin> set f \<Longrightarrow> g = [] \<or> hd g = x \<Longrightarrow> takeWhile (\<lambda>c. c \<noteq> x) (f @ g) = f"
  by (cases g) (auto simp: takeWhile_append)

lemma infer_board_frame:
  assumes "board \<in> {''PX4'', ''navio'', ''pxf''}" "f \<noteq> []" "CHR 0x0A \<notin> set f"
    "g = [] \<or> hd g = CHR 0x0A"
  shows "infer_platform_frame (board @ ''-'' @ f @ g) vt = (board, f)"
  using assms(2) takeWhile_upto[OF assms(3,4)]
  by (simp add: infer_platform_frame_def platform_frame_regex_match_def find_board[OF assms(1)])

lemma infer_board_only:
  assumes "board \<in> {''PX4'', ''navio'', ''pxf''}"
    "\<forall>c r. rest = CHR ''-'' # c # r \<longrightarrow> c = CHR 0x0A"
  shows "infer_platform_frame (board @ rest) vt = (board, vt)"
proof (cases rest)
  case Nil
  then show ?thesis
    using find_board[OF assms(1), of "[]"]
    by (simp add: infer_platform_frame_def platform_frame_regex_match_def)
next
  case (Cons c r)
  show ?thesis
  proof (cases r)
    case Nil
    with Cons show ?thesis
      by (simp add: infer_platform_frame_def platform_frame_regex_match_def
                    find_board[OF assms(1)])
  next
    case (Cons c' r')
    with \<open>rest = c # r\<close> assms(2) have "c = CHR ''-'' \<Longrightarrow> c' = CHR 0x0A" by simp
    with Cons \<open>rest = c # r\<close> show ?thesis
      by (auto simp add: infer_platform_frame_def platform_frame_regex_match_def
                         find_board[OF assms(1)])
  qed
qed

lemma infer_no_board:
  assumes "\<forall>board \<in> {''PX4'', ''navio'', ''pxf''}. \<not> startswith name board"
  shows "infer_platform_frame name vt = (name, vt)"
  by (simp add: infer_platform_frame_def platform_frame_regex_match_def
                find_no_board[OF assms])

text \<open>
  C7. The platform and the frame of a platform directory. The pattern is matched at
  the start of the name, and a frame ends where the name ends or at a newline:
  \<^item> a board (PX4, navio or pxf), a dash and a non-empty frame give the board and the
    frame;
  \<^item> a board followed by anything that is not a dash and the first character of a
    frame (nothing at all, in particular) gives the board and the vehicle type;
  \<^item> a name that starts with no board gives the whole name and the vehicle type.
\<close>

theorem infer_platform_frame_cases:
  "(\<forall>board \<in> {''PX4'', ''navio'', ''pxf''}. \<forall>f g.
       f \<noteq> [] \<and> CHR 0x0A \<notin> set f \<and> (g = [] \<or> hd g = CHR 0x0A) \<longrightarrow>
       infer_platform_frame (board @ ''-'' @ f @ g) vt = (board, f))
   \<and> (\<forall>board \<in> {''PX4'', ''navio'', ''pxf''}. \<forall>rest.
       (\<forall>c r. rest = CHR ''-'' # c # r \<longrightarrow> c = CHR 0x0A) \<longrightarrow>
       infer_platform_frame (board @ rest) vt = (board, vt))
   \<and> ((\<forall>board \<in> {''PX4'', ''navio'', ''pxf''}. \<not> startswith name board) \<longrightarrow>
       infer_platform_frame name vt = (name, vt))"
proof (intro conjI)
  show "\<forall>board \<in> {''PX4'', ''navio'', ''pxf''}. \<forall>f g.
       f \<noteq> [] \<and> CHR 0x0A \<notin> set f \<and> (g = [] \<or> hd g = CHR 0x0A) \<longrightarrow>
       infer_platform_frame (board @ ''-'' @ f @ g) vt = (board, f)"
    by (intro ballI allI impI) (elim conjE, rule infer_board_frame, assumption+)
  show "\<forall>board \<in> {''PX4'', ''navio'', ''pxf''}. \<forall>rest.
       (\<forall>c r. rest = CHR ''-'' # c # r \<longrightarrow> c = CHR 0x0A) \<longrightarrow>
       infer_platform_frame (board @ rest) vt = (board, vt)"
    by (intro ballI allI impI) (rule infer_board_only, assumption+)
  show "(\<forall>board \<in> {''PX4'', ''navio'', ''pxf''}. \<not> startswith name board) \<longrightarrow>
       infer_platform_frame name vt = (name, vt)"
    by (intro impI) (rule infer_no_board, assumption)
qed

theorem infer_platform_frame_cases_witness:
  "infer_platform_frame ''navio-quad'' ''Copter'' = (''navio'', ''quad'')
   \<and> infer_platform_frame ''PX4'' ''Copter'' = (''PX4'', ''Copter'')
   \<and> infer_platform_frame ''apm2'' ''Copter'' = (''apm2'', ''Copter'')"
proof -
  note th = infer_platform_frame_cases [of "''Copter''" "''apm2''"]
  have navio: "''navio'' \<in> {''PX4'', ''navio'', ''pxf''}"
    and px4: "''PX4'' \<in> {''PX4'', ''navio'', ''pxf''}"
    by simp_all
  have 1: "infer_platform_frame (''navio'' @ ''-'' @ ''quad'' @ []) ''Copter''
             = (''navio'', ''quad'')"
    using bspec [OF th [THEN conjunct1] navio, THEN spec, THEN spec, of "''quad''" "[]"]
    by simp
  have 2: "infer_platform_frame (''PX4'' @ []) ''Copter'' = (''PX4'', ''Copter'')"
    using bspec [OF th [THEN conjunct2, THEN conjunct1] px4, THEN spec, of "[]"] by simp
  have "\<forall>board \<in> {''PX4'', ''navio'', ''pxf''}. \<not> startswith ''apm2'' board"
    by (simp add: startswith_def)
  with th [THEN conjunct2, THEN conjunct2]
  have 3: "infer_platform_frame ''apm2'' ''Copter'' = (''apm2'', ''Copter'')"
    by (rule mp)
  from 1 2 3 show ?thesis by simp
qed

subsection \<open>Flattening\<close>

lemma values_concat_fun: "values_concat g = (\<lambda>d. concat (map g (map snd d)))"
  by (rule ext) (simp add: values_concat_def)

lemma xfirmwares_to_firmwares_values:
  "xfirmwares_to_firmwares fd =
     values_concat (values_concat (values_concat (values_concat (map snd)))) fd"
  by (simp add: xfirmwares_to_firmwares_def values_concat_fun)

lemma values_concat_update:
  "set (values_concat g (AList.update k v d)) \<subseteq> set (g v) \<union> set (values_concat g d)"
  by (induction d) (auto simp: values_concat_def)

lemma values_update:
  "set (map snd (AList.update k v d)) \<subseteq> insert v (set (map snd d))"
  by (induction d) auto

lemma values_concat_get_or_new:
  "g [] = [] \<Longrightarrow> set (g (get_or_new k [] d)) \<subseteq> set (values_concat g d)"
  by (auto simp: get_or_new_def values_concat_def split: option.splits dest!: map_of_SomeD)

lemma values_concat_Nil [simp]: "values_concat g [] = []"
  by (simp add: values_concat_def)

lemma records_store:
  "set (xfirmwares_to_firmwares (store_firmware fd vt fp sha fmt fr fw))
     \<subseteq> insert fw (set (xfirmwares_to_firmwares fd))"
proof -
  let ?g4 = "map snd :: Firmware dict \<Rightarrow> Firmware list"
  let ?g3 = "values_concat ?g4"
  let ?g2 = "values_concat ?g3"
  let ?g1 = "values_concat ?g2"
  let ?a = "get_or_new vt [] fd"
  let ?b = "get_or_new fp [] ?a"
  let ?c = "get_or_new sha [] ?b"
  let ?d = "get_or_new fmt [] ?c"
  have a: "set (?g1 ?a) \<subseteq> set (values_concat ?g1 fd)"
    by (rule values_concat_get_or_new) simp
  have b: "set (?g2 ?b) \<subseteq> set (?g1 ?a)"
    by (rule values_concat_get_or_new) simp
  have c: "set (?g3 ?c) \<subseteq> set (?g2 ?b)"
    by (rule values_concat_get_or_new) simp
  have d: "set (?g4 ?d) \<subseteq> set (?g3 ?c)"
    by (rule values_concat_get_or_new) simp
  have 5: "set (?g4 (AList.update fr fw ?d)) \<subseteq> insert fw (set (?g4 ?d))"
    by (rule values_update)
  have 4: "set (?g3 (AList.update fmt (AList.update fr fw ?d) ?c))
             \<subseteq> set (?g4 (AList.update fr fw ?d)) \<union> set (?g3 ?c)"
    by (rule values_concat_update)
  have 3: "set (?g2 (AList.update sha (AList.update fmt (AList.update fr fw ?d) ?c) ?b))
             \<subseteq> set (?g3 (AList.update fmt (AList.update fr fw ?d) ?c)) \<union> set (?g2 ?b)"
    by (rule values_concat_update)
  have 2: "set (?g1 (AList.update fp
                  (AList.update sha (AList.update fmt (AList.update fr fw ?d) ?c) ?b) ?a))
             \<subseteq> set (?g2 (AList.update sha (AList.update fmt (AList.update fr fw ?d) ?c) ?b))
                 \<union> set (?g1 ?a)"
    by (rule values_concat_update)
  have 1: "set (values_concat ?g1 (AList.update vt (AList.update fp
                  (AList.update sha (AList.update fmt (AList.update fr fw ?d) ?c) ?b) ?a) fd))
             \<subseteq> set (?g1 (AList.update fp
                  (AList.update sha (AList.update fmt (AList.update fr fw ?d) ?c) ?b) ?a))
                 \<union> set (values_concat ?g1 fd)"
    by (rule values_concat_update)
  from a b c d 1 2 3 4 5
  have "set (values_concat ?g1 (AList.update vt (AList.update fp
                  (AList.update sha (AList.update fmt (AList.update fr fw ?d) ?c) ?b) ?a) fd))
          \<subseteq> insert fw (set (values_concat ?g1 fd))"
    by blast
  then show ?thesis
    by (simp add: xfirmwares_to_firmwares_values store_firmware_def Let_def)
qed

lemma lookup_in_records:
  assumes "lookup_firmware fd vt fp sha fmt fr = Some fw"
  shows "fw \<in> set (xfirmwares_to_firmwares fd)"
proof -
  let ?g4 = "map snd :: Firmware dict \<Rightarrow> Firmware list"
  let ?g3 = "values_concat ?g4"
  let ?g2 = "values_concat ?g3"
  let ?g1 = "values_concat ?g2"
  let ?a = "get_or_new vt [] fd"
  let ?b = "get_or_new fp [] ?a"
  let ?c = "get_or_new sha [] ?b"
  let ?d = "get_or_new fmt [] ?c"
  have a: "set (?g1 ?a) \<subseteq> set (values_concat ?g1 fd)"
    by (rule values_concat_get_or_new) simp
  have b: "set (?g2 ?b) \<subseteq> set (?g1 ?a)"
    by (rule values_concat_get_or_new) simp
  have c: "set (?g3 ?c) \<subseteq> set (?g2 ?b)"
    by (rule values_concat_get_or_new) simp
  have d: "set (?g4 ?d) \<subseteq> set (?g3 ?c)"
    by (rule values_concat_get_or_new) simp
  from assms have "map_of ?d fr = Some fw"
    by (simp add: lookup_firmware_alt)
  then have "fw \<in> set (?g4 ?d)"
    by (auto dest!: map_of_SomeD intro: rev_image_eqI)
  with a b c d show ?thesis
    unfolding xfirmwares_to_firmwares_values by blast
qed

subsection \<open>Platform directories without a commit\<close>

lemma sha_here:
  "(startswith s ''commit '' \<and> takeWhile is_hex (drop 7 s) \<noteq> [])
     \<longleftrightarrow> (\<exists>post. s = ''commit '' @ post \<and> post \<noteq> [] \<and> is_hex (hd post))"
proof
  assume l: "startswith s ''commit '' \<and> takeWhile is_hex (drop 7 s) \<noteq> []"
  have len: "length ''commit '' = (7::nat)" by simp
  from l have "take 7 s = ''commit ''" unfolding startswith_def len by blast
  then have "s = ''commit '' @ drop 7 s"
    by (metis append_take_drop_id)
  moreover from l have "drop 7 s \<noteq> [] \<and> is_hex (hd (drop 7 s))"
    by (auto simp: takeWhile_eq_Nil_iff)
  ultimately show "\<exists>post. s = ''commit '' @ post \<and> post \<noteq> [] \<and> is_hex (hd post)"
    by blast
next
  assume "\<exists>post. s = ''commit '' @ post \<and> post \<noteq> [] \<and> is_hex (hd post)"
  then obtain post where "s = ''commit '' @ post" "post \<noteq> []" "is_hex (hd post)" by blast
  then show "startswith s ''commit '' \<and> takeWhile is_hex (drop 7 s) \<noteq> []"
    by (cases post) (simp_all add: startswith_def)
qed

lemma sha_regex_search_None_iff:
  "sha_regex_search s = None
     \<longleftrightarrow> (\<forall>pre post. s = pre @ ''commit '' @ post \<longrightarrow> post = [] \<or> \<not> is_hex (hd post))"
proof (induction s)
  case Nil
  show ?case by simp
next
  case (Cons c cs)
  have "sha_regex_search (c # cs) = None \<longleftrightarrow>
          \<not> (\<exists>post. c # cs = ''commit '' @ post \<and> post \<noteq> [] \<and> is_hex (hd post))
          \<and> sha_regex_search cs = None"
    using sha_here [of "c # cs"] by (simp del: drop_Suc_Cons)
  also have "\<dots> \<longleftrightarrow>
          (\<forall>post. c # cs = ''commit '' @ post \<longrightarrow> post = [] \<or> \<not> is_hex (hd post))
          \<and> (\<forall>pre post. cs = pre @ ''commit '' @ post \<longrightarrow> post = [] \<or> \<not> is_hex (hd post))"
    using Cons.IH by blast
  also have "\<dots> \<longleftrightarrow>
          (\<forall>pre post. c # cs = pre @ ''commit '' @ post \<longrightarrow> post = [] \<or> \<not> is_hex (hd post))"
  proof
    assume h: "(\<forall>post. c # cs = ''commit '' @ post \<longrightarrow> post = [] \<or> \<not> is_hex (hd post))
          \<and> (\<forall>pre post. cs = pre @ ''commit '' @ post \<longrightarrow> post = [] \<or> \<not> is_hex (hd post))"
    show "\<forall>pre post. c # cs = pre @ ''commit '' @ post \<longrightarrow> post = [] \<or> \<not> is_hex (hd post)"
    proof (intro allI impI)
      fix pre post
      assume e: "c # cs = pre @ ''commit '' @ post"
      show "post = [] \<or> \<not> is_hex (hd post)"
      proof (cases pre)
        case Nil
        with e h show ?thesis by simp
      next
        case (Cons p pre')
        with e have "cs = pre' @ ''commit '' @ post" by simp
        with h show ?thesis by blast
      qed
    qed
  next
    assume h: "\<forall>pre post. c # cs = pre @ ''commit '' @ post \<longrightarrow> post = [] \<or> \<not> is_hex (hd post)"
    have "\<forall>post. c # cs = ''commit '' @ post \<longrightarrow> post = [] \<or> \<not> is_hex (hd post)"
      using h [THEN spec, of "[]"] by simp
    moreover have "\<forall>pre post. cs = pre @ ''commit '' @ post \<longrightarrow> post = [] \<or> \<not> is_hex (hd post)"
    proof (intro allI impI)
      fix pre post
      assume "cs = pre @ ''commit '' @ post"
      then have "c # cs = (c # pre) @ ''commit '' @ post" by simp
      with h show "post = [] \<or> \<not> is_hex (hd post)" by blast
    qed
    ultimately show "(\<forall>post. c # cs = ''commit '' @ post \<longrightarrow> post = [] \<or> \<not> is_hex (hd post))
          \<and> (\<forall>pre post. cs = pre @ ''commit '' @ post \<longrightarrow> post = [] \<or> \<not> is_hex (hd post))"
      by blast
  qed
  finally show ?case .
qed

lemma git_sha_fails:
  assumes "isl (readfile E gv) \<or>
           (\<exists>content. readfile E gv = Inr content \<and> sha_regex_search content = None)"
  shows "\<exists>ex. git_sha_from_git_version E gv = Inl ex"
  using assms by (auto simp: git_sha_from_git_version_def isl_def)

text \<open>
  The hidden directory \<^verbatim>\<open>/b/Copter/stable/.old\<close> is a directory without
  \<^verbatim>\<open>git-version.txt\<close>, and the body of the loop leaves it at line 212, before the
  test of line 217: nothing is printed.
\<close>

theorem hidden_platformdir_silent:
  "isdir no_descriptor (path_join ''/b/Copter/stable'' ''.old'')
   \<and> \<not> exists no_descriptor
         (path_join (path_join ''/b/Copter/stable'' ''.old'') ''git-version.txt'')
   \<and> add_platformdir no_descriptor ''/b/Copter/stable'' ''Copter'' ''stable'' ''.old'' [] []
       = (Inr [], [])"
  by code_simp

text \<open>
  C4. A platform directory whose \<^verbatim>\<open>git-version.txt\<close> does not exist, cannot be read,
  or holds no \<^verbatim>\<open>commit\<close> followed by a space and a hexadecimal digit leaves the table
  as it was. When its name does not start with a dot, the body of the loop prints one
  warning (lines 218 or 223) and nothing else; when its name starts with a dot, the
  body of the loop prints nothing (line 212).
\<close>

theorem platformdir_without_commit_skipped:
  assumes "isdir E (path_join dir platformdir)"
    and "gv = path_join (path_join dir platformdir) ''git-version.txt''"
    and "\<not> exists E gv \<or> isl (readfile E gv) \<or>
         (\<exists>content. readfile E gv = Inr content \<and>
            (\<forall>pre post. content = pre @ ''commit '' @ post \<longrightarrow>
               post = [] \<or> \<not> is_hex (hd post)))"
  shows "(\<not> startswith platformdir ''.'' \<longrightarrow>
            (\<exists>w. add_platformdir E dir vt rt platformdir fd lg = (Inr fd, lg @ [w])
               \<and> (w = No_file gv \<or> (\<exists>ex. w = Failed_to_parse gv ex))))
       \<and> (startswith platformdir ''.'' \<longrightarrow>
            add_platformdir E dir vt rt platformdir fd lg = (Inr fd, lg))"
proof (intro conjI impI)
  assume hidden: "startswith platformdir ''.''"
  then show "add_platformdir E dir vt rt platformdir fd lg = (Inr fd, lg)"
    by (simp add: add_platformdir_def)
next
  assume shown: "\<not> startswith platformdir ''.''"
  show "\<exists>w. add_platformdir E dir vt rt platformdir fd lg = (Inr fd, lg @ [w])
           \<and> (w = No_file gv \<or> (\<exists>ex. w = Failed_to_parse gv ex))"
  proof (cases "exists E gv")
    case False
    with shown assms(1,2) show ?thesis
      by (simp add: add_platformdir_def Let_def)
  next
    case True
    with assms(3) have "isl (readfile E gv) \<or>
             (\<exists>content. readfile E gv = Inr content \<and> sha_regex_search content = None)"
      by (simp add: sha_regex_search_None_iff)
    then obtain ex where "git_sha_from_git_version E gv = Inl ex"
      using git_sha_fails by blast
    with True shown assms(1,2) show ?thesis
      by (simp add: add_platformdir_def Let_def)
  qed
qed

theorem platformdir_without_commit_skipped_witness:
  "(\<exists>w. add_platformdir no_descriptor ''/b/Copter/stable'' ''Copter'' ''stable'' ''navio'' [] []
           = (Inr [], [] @ [w])
         \<and> (w = No_file ''/b/Copter/stable/navio/git-version.txt''
            \<or> (\<exists>ex. w = Failed_to_parse ''/b/Copter/stable/navio/git-version.txt'' ex)))
   \<and> (\<exists>w. add_platformdir no_descriptor ''/b/Copter/stable'' ''Copter'' ''stable'' ''pxf'' [] []
           = (Inr [], [] @ [w])
         \<and> (w = No_file ''/b/Copter/stable/pxf/git-version.txt''
            \<or> (\<exists>ex. w = Failed_to_parse ''/b/Copter/stable/pxf/git-version.txt'' ex)))
   \<and> add_platformdir no_descriptor ''/b/Copter/stable'' ''Copter'' ''stable'' ''.old'' [] []
       = (Inr [], [])"
proof -
  have n1: "\<not> startswith ''navio'' ''.''" and n2: "\<not> startswith ''pxf'' ''.''"
    and n3: "startswith ''.old'' ''.''"
    by (simp_all add: startswith_def)
  have d1: "isdir no_descriptor (path_join ''/b/Copter/stable'' ''navio'')"
    and d2: "isdir no_descriptor (path_join ''/b/Copter/stable'' ''pxf'')"
    and d3: "isdir no_descriptor (path_join ''/b/Copter/stable'' ''.old'')"
    by code_simp+
  have g1: "''/b/Copter/stable/navio/git-version.txt''
              = path_join (path_join ''/b/Copter/stable'' ''navio'') ''git-version.txt''"
    and g2: "''/b/Copter/stable/pxf/git-version.txt''
              = path_join (path_join ''/b/Copter/stable'' ''pxf'') ''git-version.txt''"
    and g3: "''/b/Copter/stable/.old/git-version.txt''
              = path_join (path_join ''/b/Copter/stable'' ''.old'') ''git-version.txt''"
    by code_simp+
  have e1: "\<not> exists no_descriptor ''/b/Copter/stable/navio/git-version.txt''"
    and e3: "\<not> exists no_descriptor ''/b/Copter/stable/.old/git-version.txt''"
    by code_simp+
  have r: "readfile no_descriptor ''/b/Copter/stable/pxf/git-version.txt''
             = Inr ''version unknown''"
    by code_simp
  have "sha_regex_search ''version unknown'' = None"
    by code_simp
  then have "\<forall>pre post. ''version unknown'' = pre @ ''commit '' @ post \<longrightarrow>
               post = [] \<or> \<not> is_hex (hd post)"
    by (rule sha_regex_search_None_iff [THEN iffD1])
  with r have e2: "\<exists>content.
       readfile no_descriptor ''/b/Copter/stable/pxf/git-version.txt'' = Inr content \<and>
       (\<forall>pre post. content = pre @ ''commit '' @ post \<longrightarrow> post = [] \<or> \<not> is_hex (hd post))"
    by blast
  have a1: "\<exists>w. add_platformdir no_descriptor ''/b/Copter/stable'' ''Copter'' ''stable'' ''navio''
                  [] [] = (Inr [], [] @ [w])
         \<and> (w = No_file ''/b/Copter/stable/navio/git-version.txt''
            \<or> (\<exists>ex. w = Failed_to_parse ''/b/Copter/stable/navio/git-version.txt'' ex))"
    by (rule platformdir_without_commit_skipped [OF d1 g1, THEN conjunct1, THEN mp, OF _ n1])
       (use e1 in blast)
  have a2: "\<exists>w. add_platformdir no_descriptor ''/b/Copter/stable'' ''Copter'' ''stable'' ''pxf''
                  [] [] = (Inr [], [] @ [w])
         \<and> (w = No_file ''/b/Copter/stable/pxf/git-version.txt''
            \<or> (\<exists>ex. w = Failed_to_parse ''/b/Copter/stable/pxf/git-version.txt'' ex))"
    by (rule platformdir_without_commit_skipped [OF d2 g2, THEN conjunct1, THEN mp, OF _ n2])
       (use e2 in blast)
  have a3: "add_platformdir no_descriptor ''/b/Copter/stable'' ''Copter'' ''stable'' ''.old''
              [] [] = (Inr [], [])"
    by (rule platformdir_without_commit_skipped [OF d3 g3, THEN conjunct2, THEN mp, OF _ n3])
       (use e3 in blast)
  from a1 a2 a3 show ?thesis
    by (intro conjI)
qed

text \<open>
  The walk over the three directories of \<^verbatim>\<open>/b/Copter/stable\<close>, evaluated: an empty
  manifest and two warnings, none of them about \<^verbatim>\<open>.old\<close>.
\<close>

lemma no_descriptor_run:
  "walk_directory no_descriptor ''/b'' ''http://fw'' =
     (Inr (JDict [(''format-version'', JStr ''1.0.0''), (''firmware'', JList [])]),
      [No_file ''/b/Copter/stable/navio/git-version.txt'',
       Failed_to_parse ''/b/Copter/stable/pxf/git-version.txt''
         (PlainException ''/b/Copter/stable/pxf/git-version.txt'')])"
  by code_simp

subsection \<open>A malformed firmware version\<close>

lemma ctimes_readable_iff:
  "ctimes_readable E fd \<longleftrightarrow>
     (\<forall>fw \<in> set (xfirmwares_to_firmwares fd). \<forall>p. att_filepath fw = Some p \<longrightarrow>
        (\<exists>t. getctime E p = Inr t))"
  by (auto simp: ctimes_readable_def list_all_iff isl_def split: option.splits)
     (metis sum.exhaust_sel isl_def)+

lemma set_release_path:
  "\<exists>fw'. set_release rt path fw = Inr fw'
     \<and> (att_filepath fw' = Some path \<or> (\<exists>p. att_filepath fw = Some p \<and> att_filepath fw' = Some p))
     \<and> att_release_type fw' \<noteq> None \<and> att_latest fw' \<noteq> None"
  by (cases "att_filepath fw"; cases "att_release_type fw")
     (simp_all add: set_release_def Let_def)

lemma update_firmware_ok:
  assumes "getctime E path = Inr t"
    and "\<forall>p. att_filepath fw = Some p \<longrightarrow> (\<exists>t. getctime E p = Inr t)"
  shows "\<exists>fw'. update_firmware E rt path fp vt sha fr fmt fv fw = Inr fw'
           \<and> refreshed vt fp sha fmt fr fv fw'
           \<and> (\<forall>p. att_filepath fw' = Some p \<longrightarrow> (\<exists>t. getctime E p = Inr t))"
proof -
  obtain fw1 where 1: "set_release rt path fw = Inr fw1"
    and 2: "att_filepath fw1 = Some path \<or> (\<exists>p. att_filepath fw = Some p \<and> att_filepath fw1 = Some p)"
    and 3: "att_release_type fw1 \<noteq> None" "att_latest fw1 \<noteq> None"
    using set_release_path by blast
  from 2 assms obtain p t' where 4: "att_filepath fw1 = Some p" "getctime E p = Inr t'"
    by blast
  with 1 3 show ?thesis
    by (simp add: update_firmware_def Let_def refreshed_def)
qed

lemma add_file_ok:
  assumes "\<not> skipped_file f"
    and "getctime E (path_join some_dir f) = Inr t"
    and "ctimes_readable E fd"
  shows "\<exists>fw'. add_file E some_dir vt rt sha fv platform frame f fd =
             Inr (store_firmware fd vt (file_platform_of platform f) sha
                    (firmware_format_of f) frame fw')
           \<and> refreshed vt (file_platform_of platform f) sha (firmware_format_of f) frame fv fw'
           \<and> ctimes_readable E (store_firmware fd vt (file_platform_of platform f) sha
                    (firmware_format_of f) frame fw')"
proof -
  let ?fp = "file_platform_of platform f" and ?fmt = "firmware_format_of f"
  let ?fw = "firmware_at fd vt ?fp sha ?fmt frame"
  have old: "\<forall>p. att_filepath ?fw = Some p \<longrightarrow> (\<exists>t. getctime E p = Inr t)"
  proof (cases "lookup_firmware fd vt ?fp sha ?fmt frame")
    case None
    then show ?thesis by (simp add: firmware_at_lookup new_Firmware_def)
  next
    case (Some fw0)
    then have "fw0 \<in> set (xfirmwares_to_firmwares fd)" by (rule lookup_in_records)
    with assms(3) Some show ?thesis
      by (simp add: firmware_at_lookup ctimes_readable_iff)
  qed
  from update_firmware_ok [OF assms(2) old]
  obtain fw' where u: "update_firmware E rt (path_join some_dir f) ?fp vt sha frame ?fmt fv ?fw
                         = Inr fw'"
    and r: "refreshed vt ?fp sha ?fmt frame fv fw'"
    and c: "\<forall>p. att_filepath fw' = Some p \<longrightarrow> (\<exists>t. getctime E p = Inr t)"
    by blast
  have "ctimes_readable E (store_firmware fd vt ?fp sha ?fmt frame fw')"
    unfolding ctimes_readable_iff
  proof (intro ballI)
    fix fw
    assume "fw \<in> set (xfirmwares_to_firmwares (store_firmware fd vt ?fp sha ?fmt frame fw'))"
    with records_store have "fw = fw' \<or> fw \<in> set (xfirmwares_to_firmwares fd)" by blast
    with c assms(3) show "\<forall>p. att_filepath fw = Some p \<longrightarrow> (\<exists>t. getctime E p = Inr t)"
      unfolding ctimes_readable_iff by blast
  qed
  with u r show ?thesis
    by (intro exI [of _ fw']) (simp add: add_file_eq [OF assms(1)])
qed

lemma has_refreshed_store:
  assumes "has_refreshed fd vt fp sha fmt frame fv \<or> (fp = fp' \<and> fmt = fmt')"
    and "refreshed vt fp' sha fmt' frame fv fw'"
  shows "has_refreshed (store_firmware fd vt fp' sha fmt' frame fw') vt fp sha fmt frame fv"
proof (cases "fp = fp' \<and> fmt = fmt'")
  case True
  with assms(2) show ?thesis by (simp add: has_refreshed_def lookup_store_same)
next
  case False
  then have "(vt, fp, sha, fmt, frame) \<noteq> (vt, fp', sha, fmt', frame)" by blast
  from lookup_store_other [OF this] assms(1) False show ?thesis
    by (simp add: has_refreshed_def)
qed

lemma add_files_ok:
  assumes "\<forall>f \<in> set files. \<not> skipped_file f \<longrightarrow> (\<exists>t. getctime E (path_join some_dir f) = Inr t)"
    and "ctimes_readable E fd"
  shows "\<exists>fd'. add_files E some_dir vt rt sha fv platform frame files fd = Inr fd'
           \<and> ctimes_readable E fd'
           \<and> (\<forall>fp fmt. has_refreshed fd vt fp sha fmt frame fv \<longrightarrow>
                 has_refreshed fd' vt fp sha fmt frame fv)
           \<and> (\<forall>f \<in> set files. \<not> skipped_file f \<longrightarrow>
                 has_refreshed fd' vt (file_platform_of platform f) sha
                   (firmware_format_of f) frame fv)"
  using assms
proof (induction files arbitrary: fd)
  case Nil
  then show ?case by simp
next
  case (Cons f files)
  show ?case
  proof (cases "skipped_file f")
    case True
    from Cons.IH [of fd] Cons.prems
    obtain fd' where "add_files E some_dir vt rt sha fv platform frame files fd = Inr fd'"
      "ctimes_readable E fd'"
      "\<forall>fp fmt. has_refreshed fd vt fp sha fmt frame fv \<longrightarrow>
                 has_refreshed fd' vt fp sha fmt frame fv"
      "\<forall>f \<in> set files. \<not> skipped_file f \<longrightarrow>
                 has_refreshed fd' vt (file_platform_of platform f) sha
                   (firmware_format_of f) frame fv"
      by auto
    with True show ?thesis
      by (simp add: add_file_skipped)
  next
    case False
    with Cons.prems obtain t where "getctime E (path_join some_dir f) = Inr t" by auto
    from add_file_ok [OF False this Cons.prems(2)]
    obtain fw' where a: "add_file E some_dir vt rt sha fv platform frame f fd =
             Inr (store_firmware fd vt (file_platform_of platform f) sha
                    (firmware_format_of f) frame fw')"
      and r: "refreshed vt (file_platform_of platform f) sha (firmware_format_of f) frame fv fw'"
      and c: "ctimes_readable E (store_firmware fd vt (file_platform_of platform f) sha
                    (firmware_format_of f) frame fw')"
      by blast
    let ?fd1 = "store_firmware fd vt (file_platform_of platform f) sha
                    (firmware_format_of f) frame fw'"
    from Cons.IH [of ?fd1] Cons.prems(1) c
    obtain fd' where s: "add_files E some_dir vt rt sha fv platform frame files ?fd1 = Inr fd'"
      and c': "ctimes_readable E fd'"
      and k: "\<forall>fp fmt. has_refreshed ?fd1 vt fp sha fmt frame fv \<longrightarrow>
                 has_refreshed fd' vt fp sha fmt frame fv"
      and n: "\<forall>f \<in> set files. \<not> skipped_file f \<longrightarrow>
                 has_refreshed fd' vt (file_platform_of platform f) sha
                   (firmware_format_of f) frame fv"
      by auto
    have k1: "has_refreshed ?fd1 vt fp sha fmt frame fv"
      if "has_refreshed fd vt fp sha fmt frame fv \<or>
          (fp = file_platform_of platform f \<and> fmt = firmware_format_of f)" for fp fmt
      using that r by (rule has_refreshed_store)
    from k k1 have "\<forall>fp fmt. has_refreshed fd vt fp sha fmt frame fv \<longrightarrow>
                 has_refreshed fd' vt fp sha fmt frame fv"
      by blast
    moreover from k k1 have "has_refreshed fd' vt (file_platform_of platform f) sha
                   (firmware_format_of f) frame fv"
      by blast
    ultimately show ?thesis
      using a s c' n by simp
  qed
qed

lemma read_firmware_version_bad:
  assumes "isl (readfile E fvf) \<or>
           (\<exists>content. readfile E fvf = Inr content \<and>
              length (split_on CHR ''-'' (strip content)) \<noteq> 2)"
  shows "\<exists>w. read_firmware_version E fvf = (None, [w])
           \<and> (w = Malformed_firmware_version fvf \<or> w = Bad_file fvf)"
  using assms by (auto simp: read_firmware_version_def isl_def Let_def)

text \<open>
  C6. A platform directory with a commit whose \<^verbatim>\<open>firmware-version.txt\<close> cannot be read
  or does not split on the dash into two parts: the body of the loop prints one
  warning (lines 233 or 236) and goes on to the files; every file of the listing
  that is not passed over ends with a record under its keys, with the firmware
  version unset and every other field of the visit set. The creation times of the
  files of the directory, and of the paths the table already holds, are taken to be
  readable.
\<close>

theorem malformed_firmware_version_degrades:
  assumes "\<not> startswith platformdir ''.''"
    and "some_dir = path_join dir platformdir"
    and "isdir E some_dir"
    and "exists E (path_join some_dir ''git-version.txt'')"
    and "git_sha_from_git_version E (path_join some_dir ''git-version.txt'') = Inr git_sha"
    and "fvf = path_join some_dir ''firmware-version.txt''"
    and "isl (readfile E fvf) \<or>
         (\<exists>content. readfile E fvf = Inr content \<and>
            length (split_on CHR ''-'' (strip content)) \<noteq> 2)"
    and "listdir E some_dir = Inr files"
    and "\<forall>f \<in> set files. \<not> skipped_file f \<longrightarrow> (\<exists>t. getctime E (path_join some_dir f) = Inr t)"
    and "ctimes_readable E fd"
    and "infer_platform_frame platformdir vt = (platform, frame)"
  shows "\<exists>fd' w. add_platformdir E dir vt rt platformdir fd lg = (Inr fd', lg @ [w])
     \<and> (w = Malformed_firmware_version fvf \<or> w = Bad_file fvf)
     \<and> (\<forall>f \<in> set files. \<not> skipped_file f \<longrightarrow>
           has_refreshed fd' vt (file_platform_of platform f) git_sha (firmware_format_of f)
             frame None)"
proof -
  from read_firmware_version_bad [OF assms(7)]
  obtain w where w: "read_firmware_version E fvf = (None, [w])"
    "w = Malformed_firmware_version fvf \<or> w = Bad_file fvf"
    by blast
  from add_files_ok [OF assms(9,10), of vt rt git_sha None platform frame]
  obtain fd' where f: "add_files E some_dir vt rt git_sha None platform frame files fd = Inr fd'"
    "\<forall>f \<in> set files. \<not> skipped_file f \<longrightarrow>
        has_refreshed fd' vt (file_platform_of platform f) git_sha (firmware_format_of f)
          frame None"
    by blast
  have "add_platformdir E dir vt rt platformdir fd lg = (Inr fd', lg @ [w])"
    using assms(1-6,8,11) w(1) f(1)
    by (simp add: add_platformdir_def Let_def)
  with w(2) f(2) show ?thesis by blast
qed

theorem malformed_firmware_version_degrades_witness:
  "\<exists>fd' w. add_platformdir (one_build ''navio'' ''3.6.0'' ''ArduCopter.elf'' [])
              ''/b/Copter/stable'' ''Copter'' ''stable'' ''navio'' [] [] = (Inr fd', [] @ [w])
     \<and> (w = Malformed_firmware_version ''/b/Copter/stable/navio/firmware-version.txt''
        \<or> w = Bad_file ''/b/Copter/stable/navio/firmware-version.txt'')
     \<and> (\<forall>f \<in> set [''git-version.txt'', ''firmware-version.txt'', ''ArduCopter.elf''].
           \<not> skipped_file f \<longrightarrow>
           has_refreshed fd' ''Copter'' (file_platform_of ''navio'' f) ''deadbeef''
             (firmware_format_of f) ''Copter'' None)"
proof -
  let ?E = "one_build ''navio'' ''3.6.0'' ''ArduCopter.elf'' []"
  have 1: "\<not> startswith ''navio'' ''.''"
    by code_simp
  have 2: "''/b/Copter/stable/navio'' = path_join ''/b/Copter/stable'' ''navio''"
    by code_simp
  have 3: "isdir ?E ''/b/Copter/stable/navio''"
    by code_simp
  have 4: "exists ?E (path_join ''/b/Copter/stable/navio'' ''git-version.txt'')"
    by code_simp
  have 5: "git_sha_from_git_version ?E (path_join ''/b/Copter/stable/navio'' ''git-version.txt'')
             = Inr ''deadbeef''"
    by code_simp
  have 6: "''/b/Copter/stable/navio/firmware-version.txt''
             = path_join ''/b/Copter/stable/navio'' ''firmware-version.txt''"
    by code_simp
  have "readfile ?E ''/b/Copter/stable/navio/firmware-version.txt'' = Inr ''3.6.0''"
    by code_simp
  moreover have "length (split_on CHR ''-'' (strip ''3.6.0'')) \<noteq> 2"
    by code_simp
  ultimately have 7: "isl (readfile ?E ''/b/Copter/stable/navio/firmware-version.txt'') \<or>
         (\<exists>content. readfile ?E ''/b/Copter/stable/navio/firmware-version.txt'' = Inr content \<and>
            length (split_on CHR ''-'' (strip content)) \<noteq> 2)"
    by blast
  have 8: "listdir ?E ''/b/Copter/stable/navio''
             = Inr [''git-version.txt'', ''firmware-version.txt'', ''ArduCopter.elf'']"
    by code_simp
  have s: "skipped_file ''git-version.txt''" "skipped_file ''firmware-version.txt''"
    by code_simp+
  have g: "getctime ?E (path_join ''/b/Copter/stable/navio'' ''ArduCopter.elf'') = Inr 0"
    by code_simp
  have 9: "\<forall>f \<in> set [''git-version.txt'', ''firmware-version.txt'', ''ArduCopter.elf''].
             \<not> skipped_file f \<longrightarrow>
             (\<exists>t. getctime ?E (path_join ''/b/Copter/stable/navio'' f) = Inr t)"
    using s g by simp
  have 10: "ctimes_readable ?E []"
    by code_simp
  have 11: "infer_platform_frame ''navio'' ''Copter'' = (''navio'', ''Copter'')"
    by code_simp
  show ?thesis
    by (rule malformed_firmware_version_degrades [OF 1 2 3 4 5 6 7 8 9 10 11])
qed

text \<open>The same run, evaluated: the one record, and the one warning.\<close>

lemma malformed_firmware_version_run:
  "add_platformdir (one_build ''navio'' ''3.6.0'' ''ArduCopter.elf'' [])
     ''/b/Copter/stable'' ''Copter'' ''stable'' ''navio'' [] [] =
   (Inr [(''Copter'', [(''navio'', [(''deadbeef'', [(''elf'', [(''Copter'',
        \<lparr>att_date = None, att_platform = Some ''navio'', att_vehicletype = Some ''Copter'',
         att_filepath = Some ''/b/Copter/stable/navio/ArduCopter.elf'',
         att_git_sha = Some ''deadbeef'', att_frame = Some ''Copter'',
         att_release_type = Some ''stable'', att_firmware_version = None,
         att_latest = Some 0, att_timestamp = Some 0, att_format = Some ''elf''\<rparr>)])])])])],
    [Malformed_firmware_version ''/b/Copter/stable/navio/firmware-version.txt''])"
  by code_simp

subsection \<open>The warnings of a run\<close>

lemma read_firmware_version_warnings:
  "No_platform p \<notin> set (snd (read_firmware_version E f))"
  by (simp add: read_firmware_version_def Let_def split: sum.splits)

lemma add_platformdir_warnings:
  assumes "No_platform p \<notin> set lg"
  shows "No_platform p \<notin> set (snd (add_platformdir E dir vt rt pd fd lg))"
proof -
  obtain fv ws where r: "read_firmware_version E
      (path_join (path_join dir pd) ''firmware-version.txt'') = (fv, ws)"
    by (cases "read_firmware_version E (path_join (path_join dir pd) ''firmware-version.txt'')")
  with read_firmware_version_warnings [of p E "path_join (path_join dir pd) ''firmware-version.txt''"]
  have "No_platform p \<notin> set ws" by simp
  with assms r show ?thesis
    by (simp add: add_platformdir_def Let_def split: sum.splits prod.splits)
qed

lemma add_platformdirs_warnings:
  "No_platform p \<notin> set lg \<Longrightarrow>
   No_platform p \<notin> set (snd (add_platformdirs E dir vt rt dlist fd lg))"
proof (induction dlist arbitrary: fd lg)
  case Nil
  then show ?case by simp
next
  case (Cons pd dlist)
  from add_platformdir_warnings [OF Cons.prems]
  have "No_platform p \<notin> set (snd (add_platformdir E dir vt rt pd fd lg))" .
  with Cons.IH show ?case
    by (cases "add_platformdir E dir vt rt pd fd lg") (auto split: sum.splits)
qed

lemma add_firmware_data_from_dir_warnings:
  "No_platform p \<notin> set lg \<Longrightarrow>
   No_platform p \<notin> set (snd (add_firmware_data_from_dir E dir fd vt rt lg))"
  by (simp add: add_firmware_data_from_dir_def add_platformdirs_warnings split: sum.splits)

lemma walk_firstlevel_warnings:
  "No_platform p \<notin> set lg \<Longrightarrow>
   No_platform p \<notin> set (snd (walk_firstlevel E basedir vt firstlevel fd lg))"
  by (simp add: walk_firstlevel_def Let_def add_firmware_data_from_dir_warnings)

lemma walk_firstlevels_warnings:
  "No_platform p \<notin> set lg \<Longrightarrow>
   No_platform p \<notin> set (snd (walk_firstlevels E basedir vt vdir fd lg))"
proof (induction vdir arbitrary: fd lg)
  case Nil
  then show ?case by simp
next
  case (Cons firstlevel vdir)
  from walk_firstlevel_warnings [OF Cons.prems]
  have "No_platform p \<notin> set (snd (walk_firstlevel E basedir vt firstlevel fd lg))" .
  with Cons.IH show ?case
    by (cases "walk_firstlevel E basedir vt firstlevel fd lg") (auto split: sum.splits)
qed

lemma walk_vehicletypes_warnings:
  "No_platform p \<notin> set lg \<Longrightarrow>
   No_platform p \<notin> set (snd (walk_vehicletypes E basedir vts vdir fd lg))"
proof (induction vts arbitrary: vdir fd lg)
  case Nil
  then show ?case by simp
next
  case (Cons vt vts)
  have step: "No_platform p \<notin> set (snd (case walk_firstlevels E basedir vt vd fd lg of
             (Inl e, lg') \<Rightarrow> (Inl e, lg')
           | (Inr xfirmwares', lg') \<Rightarrow>
               walk_vehicletypes E basedir vts (Some vd) xfirmwares' lg'))" for vd
    using walk_firstlevels_warnings [OF Cons.prems, of E basedir vt vd fd] Cons.IH
    by (cases "walk_firstlevels E basedir vt vd fd lg") (auto split: sum.splits)
  show ?case
    using Cons.prems Cons.IH step
    by (simp split: sum.splits option.splits exn.splits)
qed

lemma accumulate_warnings: "No_platform p \<notin> set (snd (accumulate E basedir))"
  by (simp add: accumulate_def walk_vehicletypes_warnings)

lemma add_USB_IDs_ChibiOS_warnings:
  assumes "map_of firmware ''platform'' \<noteq> None" and "No_platform p \<notin> set lg"
  shows "No_platform p \<notin> set (snd (add_USB_IDs_ChibiOS E basedir baseurl firmware lg))"
  using assms
  by (auto simp: add_USB_IDs_ChibiOS_def Let_def
           split: option.splits json.splits sum.splits bool.splits prod.splits)

lemma add_USB_IDs_warnings:
  assumes "map_of firmware ''platform'' \<noteq> None" and "No_platform p \<notin> set lg"
  shows "No_platform p \<notin> set (snd (add_USB_IDs E basedir baseurl firmware lg))"
  using assms add_USB_IDs_ChibiOS_warnings [OF assms, of E basedir baseurl]
  by (simp add: add_USB_IDs_def split: option.splits)

lemma build_some_json_platform_case:
  "(case build_some_json E basedir baseurl fw of
      Inl e \<Rightarrow> True
    | Inr some_json \<Rightarrow> map_of some_json ''platform'' \<noteq> None)"
  by (simp add: build_some_json_def Let_def map_of_update_if
           split: sum.split option.split prod.split)

lemma build_some_json_platform:
  "build_some_json E basedir baseurl fw = Inr some_json \<Longrightarrow>
   map_of some_json ''platform'' \<noteq> None"
  using build_some_json_platform_case [of E basedir baseurl fw] by simp

lemma project_firmware_warnings:
  "No_platform p \<notin> set (snd (project_firmware E basedir baseurl fw lg))"
  if "No_platform p \<notin> set lg"
proof (cases "build_some_json E basedir baseurl fw")
  case (Inl e)
  then show ?thesis using that by (simp add: project_firmware_def)
next
  case (Inr some_json)
  from build_some_json_platform [OF Inr] have "map_of some_json ''platform'' \<noteq> None" .
  from add_USB_IDs_warnings [OF this that] Inr show ?thesis
    by (simp add: project_firmware_def)
qed

lemma project_firmwares_warnings:
  "No_platform p \<notin> set lg \<Longrightarrow>
   No_platform p \<notin> set (snd (project_firmwares E basedir baseurl fws lg))"
proof (induction fws arbitrary: lg)
  case Nil
  then show ?case by simp
next
  case (Cons fw fws)
  obtain r lg1 where p: "project_firmware E basedir baseurl fw lg = (r, lg1)"
    by (cases "project_firmware E basedir baseurl fw lg")
  with project_firmware_warnings [OF Cons.prems, of E basedir baseurl fw]
  have lg1: "No_platform p \<notin> set lg1" by simp
  show ?case
  proof (cases r)
    case (Inl e)
    with p lg1 show ?thesis by simp
  next
    case (Inr some_json)
    obtain r2 lg2 where q: "project_firmwares E basedir baseurl fws lg1 = (r2, lg2)"
      by (cases "project_firmwares E basedir baseurl fws lg1")
    with Cons.IH [OF lg1] have "No_platform p \<notin> set lg2" by simp
    with p q Inr show ?thesis by (cases r2) simp_all
  qed
qed

text \<open>
  C10. Whatever the record, the entry that line 427 passes to the USB enrichment has
  the key \<^verbatim>\<open>platform\<close> (line 409 sets it, to \<^verbatim>\<open>None\<close> at worst), so the test of line 127
  never succeeds: no run of \<^verbatim>\<open>walk_directory\<close>, finished or ended by an exception,
  prints the warning of line 128.
\<close>

theorem no_platform_warning_unreachable:
  "(\<forall>fw some_json. build_some_json E basedir baseurl fw = Inr some_json \<longrightarrow>
      map_of some_json ''platform'' \<noteq> None)
   \<and> (\<forall>p. No_platform p \<notin> set (snd (walk_directory E basedir baseurl)))"
proof (intro conjI allI impI)
  fix fw some_json
  assume "build_some_json E basedir baseurl fw = Inr some_json"
  then show "map_of some_json ''platform'' \<noteq> None"
    by (rule build_some_json_platform)
next
  fix p
  have a: "No_platform p \<notin> set (snd (accumulate E basedir))"
    by (rule accumulate_warnings)
  show "No_platform p \<notin> set (snd (walk_directory E basedir baseurl))"
  proof (cases "accumulate E basedir")
    case (Pair r lg)
    with a have lg: "No_platform p \<notin> set lg" by simp
    show ?thesis
    proof (cases r)
      case (Inl e)
      with Pair lg show ?thesis by (simp add: walk_directory_def)
    next
      case (Inr fd)
      from project_firmwares_warnings [OF lg]
      have "No_platform p \<notin>
              set (snd (project_firmwares E basedir baseurl (xfirmwares_to_firmwares fd) lg))" .
      moreover obtain r2 lg2 where
        "project_firmwares E basedir baseurl (xfirmwares_to_firmwares fd) lg = (r2, lg2)"
        by (cases "project_firmwares E basedir baseurl (xfirmwares_to_firmwares fd) lg")
      ultimately show ?thesis
        using Pair Inr by (cases r2) (simp_all add: walk_directory_def)
    qed
  qed
qed

theorem no_platform_warning_unreachable_witness:
  "map_of [(''mav-autopilot'', JStr ''ARDUPILOTMEGA''), (''platform'', JStr ''navio''),
           (''git-sha'', JStr ''deadbeef''),
           (''url'', JStr ''http://fw/Copter/stable/navio-quad/ArduCopter.apj''),
           (''mav-type'', JStr ''QUADROTOR''), (''mav-firmware-version-type'', JStr ''OFFICIAL''),
           (''latest'', JInt 0), (''format'', JStr ''apj''),
           (''mav-firmware-version'', JStr ''3.6.0''),
           (''mav-firmware-version-major'', JStr ''3''),
           (''mav-firmware-version-minor'', JStr ''6''),
           (''mav-firmware-version-patch'', JStr ''0'')] ''platform'' \<noteq> None
   \<and> (\<forall>p. No_platform p \<notin> set (snd (walk_directory round_trip ''/b'' ''http://fw'')))"
proof -
  note th = no_platform_warning_unreachable [of round_trip "''/b''" "''http://fw''"]
  have b: "build_some_json round_trip ''/b'' ''http://fw''
             \<lparr>att_date = None, att_platform = Some ''navio'', att_vehicletype = Some ''Copter'',
              att_filepath = Some ''/b/Copter/stable/navio-quad/ArduCopter.apj'',
              att_git_sha = Some ''deadbeef'', att_frame = Some ''quad'',
              att_release_type = Some ''stable'',
              att_firmware_version = Some ''3.6.0-official'', att_latest = Some 0,
              att_timestamp = Some 0, att_format = Some ''apj''\<rparr>
           = Inr [(''mav-autopilot'', JStr ''ARDUPILOTMEGA''), (''platform'', JStr ''navio''),
           (''git-sha'', JStr ''deadbeef''),
           (''url'', JStr ''http://fw/Copter/stable/navio-quad/ArduCopter.apj''),
           (''mav-type'', JStr ''QUADROTOR''), (''mav-firmware-version-type'', JStr ''OFFICIAL''),
           (''latest'', JInt 0), (''format'', JStr ''apj''),
           (''mav-firmware-version'', JStr ''3.6.0''),
           (''mav-firmware-version-major'', JStr ''3''),
           (''mav-firmware-version-minor'', JStr ''6''),
           (''mav-firmware-version-patch'', JStr ''0'')]"
    by code_simp
  from th [THEN conjunct1, THEN spec, THEN spec, THEN mp, OF b] th [THEN conjunct2]
  show ?thesis by (rule conjI)
qed

subsection \<open>The strict parse of the projection\<close>

lemma parse_fw_version_Inr_iff:
  "parse_fw_version v = Inr r \<longleftrightarrow>
     (\<exists>a b x y z. split_on CHR ''-'' v = [a, b] \<and> split_on CHR ''.'' a = [x, y, z]
        \<and> r = (x, y, z, v))"
  by (auto simp: parse_fw_version_def split: list.splits)

lemma parse_fw_version_Inl:
  "(\<forall>r. parse_fw_version v \<noteq> Inr r) \<Longrightarrow> parse_fw_version v = Inl ValueError"
  by (auto simp: parse_fw_version_def split: list.splits)

lemma build_some_json_bad_version:
  assumes "att_firmware_version fw = Some v" "v \<noteq> []" "\<forall>r. parse_fw_version v \<noteq> Inr r"
  shows "isl (build_some_json E basedir baseurl fw)"
  using assms(1,2) parse_fw_version_Inl [OF assms(3)]
  by (simp add: build_some_json_def Let_def split: sum.split option.split)

lemma project_firmwares_fails:
  assumes "fw \<in> set fws" "isl (build_some_json E basedir baseurl fw)"
  shows "\<exists>e lg'. project_firmwares E basedir baseurl fws lg = (Inl e, lg')"
  using assms(1)
proof (induction fws arbitrary: lg)
  case Nil
  then show ?case by simp
next
  case (Cons f fws)
  obtain r lg1 where p: "project_firmware E basedir baseurl f lg = (r, lg1)"
    by (cases "project_firmware E basedir baseurl f lg")
  show ?case
  proof (cases r)
    case (Inl e)
    with p show ?thesis by simp
  next
    case (Inr some_json)
    have "f \<noteq> fw"
    proof
      assume "f = fw"
      with assms(2) p Inr show False
        by (auto simp: project_firmware_def isl_def)
    qed
    with Cons.prems have "fw \<in> set fws" by simp
    from Cons.IH [OF this, of lg1] p Inr show ?thesis by auto
  qed
qed

lemma versions_split_iff:
  "versions_split fd \<longleftrightarrow>
     (\<forall>fw \<in> set (xfirmwares_to_firmwares fd). \<forall>v. att_firmware_version fw = Some v \<longrightarrow>
        length (split_on CHR ''-'' v) = 2)"
  by (auto simp: versions_split_def list_all_iff split: option.splits)

lemma update_firmware_version:
  "update_firmware E rt path fp vt sha fr fmt fv fw = Inr fw' \<Longrightarrow>
   att_firmware_version fw' = fv"
  by (auto simp: update_firmware_def Let_def split: sum.splits option.splits)

lemma add_file_versions:
  assumes "versions_split fd"
    and "\<forall>v. fv = Some v \<longrightarrow> length (split_on CHR ''-'' v) = 2"
    and "add_file E some_dir vt rt sha fv platform frame f fd = Inr fd'"
  shows "versions_split fd'"
proof (cases "skipped_file f")
  case True
  with assms(1,3) show ?thesis by (simp add: add_file_skipped)
next
  case False
  from assms(3) obtain fw' where
    u: "update_firmware E rt (path_join some_dir f) (file_platform_of platform f) vt sha frame
          (firmware_format_of f) fv
          (firmware_at fd vt (file_platform_of platform f) sha (firmware_format_of f) frame)
        = Inr fw'"
    and s: "fd' = store_firmware fd vt (file_platform_of platform f) sha
              (firmware_format_of f) frame fw'"
    by (auto simp: add_file_eq [OF False] split: sum.splits)
  from update_firmware_version [OF u] have v: "att_firmware_version fw' = fv" .
  show ?thesis
    unfolding versions_split_iff
  proof (intro ballI)
    fix fw
    assume "fw \<in> set (xfirmwares_to_firmwares fd')"
    with s records_store have "fw = fw' \<or> fw \<in> set (xfirmwares_to_firmwares fd)" by blast
    with v assms(1,2)
    show "\<forall>v. att_firmware_version fw = Some v \<longrightarrow> length (split_on CHR ''-'' v) = 2"
      unfolding versions_split_iff by blast
  qed
qed

lemma add_files_versions:
  assumes "\<forall>v. fv = Some v \<longrightarrow> length (split_on CHR ''-'' v) = 2"
  shows "versions_split fd \<Longrightarrow>
         add_files E some_dir vt rt sha fv platform frame files fd = Inr fd' \<Longrightarrow>
         versions_split fd'"
proof (induction files arbitrary: fd)
  case Nil
  then show ?case by simp
next
  case (Cons f files)
  from Cons.prems(2) obtain fd1 where
    a: "add_file E some_dir vt rt sha fv platform frame f fd = Inr fd1"
    and r: "add_files E some_dir vt rt sha fv platform frame files fd1 = Inr fd'"
    by (auto split: sum.splits)
  from add_file_versions [OF Cons.prems(1) assms a] have "versions_split fd1" .
  from Cons.IH [OF this r] show ?case .
qed

lemma read_firmware_version_split:
  "read_firmware_version E f = (Some v, ws) \<Longrightarrow> length (split_on CHR ''-'' v) = 2"
  by (auto simp: read_firmware_version_def Let_def split: sum.splits if_splits)

lemma add_platformdir_versions:
  assumes "versions_split fd"
    and "add_platformdir E dir vt rt pd fd lg = (Inr fd', lg')"
  shows "versions_split fd'"
proof -
  obtain fv ws where r: "read_firmware_version E
      (path_join (path_join dir pd) ''firmware-version.txt'') = (fv, ws)"
    by (cases "read_firmware_version E (path_join (path_join dir pd) ''firmware-version.txt'')")
  then have fv: "\<forall>v. fv = Some v \<longrightarrow> length (split_on CHR ''-'' v) = 2"
    using read_firmware_version_split by blast
  obtain platform frame where i: "infer_platform_frame pd vt = (platform, frame)"
    by (cases "infer_platform_frame pd vt")
  from assms(2) r i have
    "fd' = fd \<or> (\<exists>sha files.
        add_files E (path_join dir pd) vt rt sha fv platform frame files fd = Inr fd')"
    by (auto simp: add_platformdir_def Let_def split: if_splits sum.splits)
  with assms(1) add_files_versions [OF fv] show ?thesis by blast
qed

lemma add_platformdirs_versions:
  "versions_split fd \<Longrightarrow>
   add_platformdirs E dir vt rt dlist fd lg = (Inr fd', lg') \<Longrightarrow> versions_split fd'"
proof (induction dlist arbitrary: fd lg)
  case Nil
  then show ?case by simp
next
  case (Cons pd dlist)
  obtain r lg1 where p: "add_platformdir E dir vt rt pd fd lg = (r, lg1)"
    by (cases "add_platformdir E dir vt rt pd fd lg")
  with Cons.prems(2) obtain fd1 where r: "r = Inr fd1"
    by (cases r) simp_all
  from add_platformdir_versions [OF Cons.prems(1) p [unfolded r]] have "versions_split fd1" .
  moreover from Cons.prems(2) p r
  have "add_platformdirs E dir vt rt dlist fd1 lg1 = (Inr fd', lg')" by simp
  ultimately show ?case by (rule Cons.IH)
qed

lemma add_firmware_data_from_dir_versions:
  "versions_split fd \<Longrightarrow>
   add_firmware_data_from_dir E dir fd vt rt lg = (Inr fd', lg') \<Longrightarrow> versions_split fd'"
  by (auto simp: add_firmware_data_from_dir_def split: if_splits sum.splits
           dest: add_platformdirs_versions)

lemma walk_firstlevel_versions:
  "versions_split fd \<Longrightarrow>
   walk_firstlevel E basedir vt firstlevel fd lg = (Inr fd', lg') \<Longrightarrow> versions_split fd'"
  by (auto simp: walk_firstlevel_def Let_def split: if_splits
           dest: add_firmware_data_from_dir_versions)

lemma walk_firstlevels_versions:
  "versions_split fd \<Longrightarrow>
   walk_firstlevels E basedir vt vdir fd lg = (Inr fd', lg') \<Longrightarrow> versions_split fd'"
proof (induction vdir arbitrary: fd lg)
  case Nil
  then show ?case by simp
next
  case (Cons firstlevel vdir)
  obtain r lg1 where p: "walk_firstlevel E basedir vt firstlevel fd lg = (r, lg1)"
    by (cases "walk_firstlevel E basedir vt firstlevel fd lg")
  with Cons.prems(2) obtain fd1 where r: "r = Inr fd1"
    by (cases r) simp_all
  from walk_firstlevel_versions [OF Cons.prems(1) p [unfolded r]] have "versions_split fd1" .
  moreover from Cons.prems(2) p r
  have "walk_firstlevels E basedir vt vdir fd1 lg1 = (Inr fd', lg')" by simp
  ultimately show ?case by (rule Cons.IH)
qed

lemma walk_vehicletypes_versions:
  "versions_split fd \<Longrightarrow>
   walk_vehicletypes E basedir vts vdir fd lg = (Inr fd', lg') \<Longrightarrow> versions_split fd'"
proof (induction vts arbitrary: vdir fd lg)
  case Nil
  then show ?case by simp
next
  case (Cons vt vts)
  have step: "versions_split fd'"
    if w: "(case walk_firstlevels E basedir vt vd fd lg of
             (Inl e, lg1) \<Rightarrow> (Inl e, lg1)
           | (Inr fd1, lg1) \<Rightarrow> walk_vehicletypes E basedir vts (Some vd) fd1 lg1)
           = (Inr fd', lg')" for vd
  proof -
    obtain r lg1 where p: "walk_firstlevels E basedir vt vd fd lg = (r, lg1)"
      by (cases "walk_firstlevels E basedir vt vd fd lg")
    with w obtain fd1 where r: "r = Inr fd1"
      by (cases r) simp_all
    from walk_firstlevels_versions [OF Cons.prems(1) p [unfolded r]] have "versions_split fd1" .
    moreover from w p r
    have "walk_vehicletypes E basedir vts (Some vd) fd1 lg1 = (Inr fd', lg')" by simp
    ultimately show ?thesis by (rule Cons.IH)
  qed
  from Cons.prems(2) show ?case
    using Cons.IH [OF Cons.prems(1)] step
    by (simp split: sum.splits option.splits exn.splits if_splits)
qed

lemma accumulate_versions:
  "accumulate E basedir = (Inr fd, lg) \<Longrightarrow> versions_split fd"
proof -
  have "versions_split []" by (simp add: versions_split_def xfirmwares_to_firmwares_def)
  then show "accumulate E basedir = (Inr fd, lg) \<Longrightarrow> versions_split fd"
    unfolding accumulate_def by (rule walk_vehicletypes_versions)
qed

text \<open>
  C5. \<^verbatim>\<open>parse_fw_version\<close> returns exactly when the version splits on the dash into two
  parts and the first part on the dot into three; otherwise it raises \<^verbatim>\<open>ValueError\<close>.
  Nothing catches it: a record among those projected whose version is not empty and
  does not have that shape ends the projection with an exception, and when the
  records are those of the table that the walk has filled (where every version has
  passed line 231, so is not empty), \<^verbatim>\<open>walk_directory\<close> ends with an exception and
  returns no manifest.
\<close>

theorem strict_version_parse_aborts:
  "(\<forall>r. parse_fw_version v = Inr r \<longleftrightarrow>
        (\<exists>a b x y z. split_on CHR ''-'' v = [a, b] \<and> split_on CHR ''.'' a = [x, y, z]
           \<and> r = (x, y, z, v)))
   \<and> ((\<forall>r. parse_fw_version v \<noteq> Inr r) \<longrightarrow> parse_fw_version v = Inl ValueError)
   \<and> (fw \<in> set fws \<and> att_firmware_version fw = Some v \<and> v \<noteq> []
        \<and> (\<forall>r. parse_fw_version v \<noteq> Inr r) \<longrightarrow>
      (\<exists>e lg'. project_firmwares E basedir baseurl fws lg = (Inl e, lg')))
   \<and> (accumulate E basedir = (Inr fd, lg) \<and> fw \<in> set (xfirmwares_to_firmwares fd)
        \<and> att_firmware_version fw = Some v \<and> (\<forall>r. parse_fw_version v \<noteq> Inr r) \<longrightarrow>
      (\<exists>e lg'. walk_directory E basedir baseurl = (Inl e, lg')))"
proof (intro conjI allI impI)
  fix r
  show "parse_fw_version v = Inr r \<longleftrightarrow>
        (\<exists>a b x y z. split_on CHR ''-'' v = [a, b] \<and> split_on CHR ''.'' a = [x, y, z]
           \<and> r = (x, y, z, v))"
    by (rule parse_fw_version_Inr_iff)
next
  assume "\<forall>r. parse_fw_version v \<noteq> Inr r"
  then show "parse_fw_version v = Inl ValueError"
    by (rule parse_fw_version_Inl)
next
  assume h: "fw \<in> set fws \<and> att_firmware_version fw = Some v \<and> v \<noteq> []
        \<and> (\<forall>r. parse_fw_version v \<noteq> Inr r)"
  then have 1: "fw \<in> set fws" and 2: "att_firmware_version fw = Some v" and 3: "v \<noteq> []"
    and 4: "\<forall>r. parse_fw_version v \<noteq> Inr r"
    by blast+
  from build_some_json_bad_version [OF 2 3 4]
  have "isl (build_some_json E basedir baseurl fw)" .
  with 1 show "\<exists>e lg'. project_firmwares E basedir baseurl fws lg = (Inl e, lg')"
    by (rule project_firmwares_fails)
next
  assume h: "accumulate E basedir = (Inr fd, lg) \<and> fw \<in> set (xfirmwares_to_firmwares fd)
        \<and> att_firmware_version fw = Some v \<and> (\<forall>r. parse_fw_version v \<noteq> Inr r)"
  then have 0: "accumulate E basedir = (Inr fd, lg)"
    and 1: "fw \<in> set (xfirmwares_to_firmwares fd)"
    and 2: "att_firmware_version fw = Some v"
    and 4: "\<forall>r. parse_fw_version v \<noteq> Inr r"
    by blast+
  from accumulate_versions [OF 0] have "versions_split fd" .
  with 1 2 have "length (split_on CHR ''-'' v) = 2"
    unfolding versions_split_iff by blast
  then have 3: "v \<noteq> []" by auto
  from build_some_json_bad_version [OF 2 3 4]
  have "isl (build_some_json E basedir baseurl fw)" .
  with 1 obtain e lg' where
    "project_firmwares E basedir baseurl (xfirmwares_to_firmwares fd) lg = (Inl e, lg')"
    using project_firmwares_fails by blast
  with 0 show "\<exists>e lg'. walk_directory E basedir baseurl = (Inl e, lg')"
    by (simp add: walk_directory_def)
qed

theorem strict_version_parse_aborts_witness:
  "\<exists>e lg'. walk_directory short_version ''/b'' ''http://fw'' = (Inl e, lg')"
proof -
  let ?fw = "\<lparr>att_date = None, att_platform = Some ''navio'', att_vehicletype = Some ''Copter'',
              att_filepath = Some ''/b/Copter/stable/navio/ArduCopter.elf'',
              att_git_sha = Some ''deadbeef'', att_frame = Some ''Copter'',
              att_release_type = Some ''stable'',
              att_firmware_version = Some ''3.6-official'', att_latest = Some 0,
              att_timestamp = Some 0, att_format = Some ''elf''\<rparr>"
  let ?fd = "[(''Copter'', [(''navio'', [(''deadbeef'', [(''elf'', [(''Copter'', ?fw)])])])])]"
  have a: "accumulate short_version ''/b'' = (Inr ?fd, [])"
    by code_simp
  have m: "?fw \<in> set (xfirmwares_to_firmwares ?fd)"
    by (simp add: xfirmwares_to_firmwares_def)
  have v: "att_firmware_version ?fw = Some ''3.6-official''"
    by simp
  have "parse_fw_version ''3.6-official'' = Inl ValueError"
    by code_simp
  then have p: "\<forall>r. parse_fw_version ''3.6-official'' \<noteq> Inr r"
    by simp
  from strict_version_parse_aborts
         [of "''3.6-official''" ?fw "[]" short_version "''/b''" "''http://fw''" "[]" ?fd,
          THEN conjunct2, THEN conjunct2, THEN conjunct2, THEN mp]
       a m v p
  show ?thesis by blast
qed

text \<open>That run, evaluated: the exception is the \<^verbatim>\<open>ValueError\<close> of line 338.\<close>

lemma short_version_run:
  "walk_directory short_version ''/b'' ''http://fw'' = (Inl ValueError, [])"
  by code_simp

subsection \<open>USB identifiers of an apj firmware\<close>

text \<open>
  C8. The enrichment of an entry whose \<^verbatim>\<open>apj\<close> file exists and parses to a dictionary
  with an integer \<^verbatim>\<open>board_id\<close>, for a platform that is a string: the board id is
  copied, the USB ids are those of the platform in the vendor table (the one generic
  id for a platform that is not there), the bootloader strings start with the
  platform and \<^verbatim>\<open>-BL\<close>, and one legacy pair is appended for the board ids 50, 9, 11, 13
  and 88, and for no other. No warning is printed.
\<close>

theorem apj_legacy_amendments:
  assumes "map_of firmware ''url'' = Some (JStr url)"
    and "apj_path = path_join basedir (drop (length baseurl + 1) url)"
    and "exists E apj_path"
    and "json_load E apj_path = Inr (JDict apj_json)"
    and "map_of apj_json ''board_id'' = Some (JInt board_id)"
    and "map_of firmware ''platform'' = Some (JStr platform)"
  shows "let legacy =
             (if board_id = 50 then [(''PX4 BL FMU v5.x'', ''0x26AC/0x0032'')]
              else if board_id = 9 then [(''PX4 BL FMU v2.x'', ''0x26AC/0x0011'')]
              else if board_id = 11 then [(''PX4 BL FMU v4.x'', ''0x26AC/0x0012'')]
              else if board_id = 13 then [(''PX4 BL FMU v4.x PRO'', ''0x26AC/0x0013'')]
              else if board_id = 88 then [(''MindPX BL FMU v2.x'', ''0x26AC/0x0030'')]
              else []);
             vendor = (case map_of USBID_MAP platform of
                         Some ids \<Rightarrow> ids
                       | None \<Rightarrow> [''0x0483/0x5740''])
         in \<exists>firmware'. add_USB_IDs_ChibiOS E basedir baseurl firmware lg = (Inr firmware', lg)
              \<and> map_of firmware' ''board_id'' = Some (JInt board_id)
              \<and> map_of firmware' ''USBID'' = Some (strs (vendor @ map snd legacy))
              \<and> map_of firmware' ''bootloader_str''
                   = Some (strs ([platform @ ''-BL''] @ map fst legacy))"
  using assms
  by (simp add: add_USB_IDs_ChibiOS_def Let_def json_contains_def json_getitem_def
                special_case_def json_eq_int_def map_of_update_if)

theorem apj_legacy_amendments_witness:
  "\<exists>firmware'.
      add_USB_IDs_ChibiOS round_trip ''/b'' ''http://fw''
        [(''platform'', JStr ''navio''),
         (''url'', JStr ''http://fw/Copter/stable/navio-quad/ArduCopter.apj''),
         (''format'', JStr ''apj'')] [] = (Inr firmware', [])
    \<and> map_of firmware' ''board_id'' = Some (JInt 9)
    \<and> map_of firmware' ''USBID'' = Some (strs [''0x0483/0x5740'', ''0x26AC/0x0011''])
    \<and> map_of firmware' ''bootloader_str'' = Some (strs [''navio-BL'', ''PX4 BL FMU v2.x''])"
proof -
  let ?firmware = "[(''platform'', JStr ''navio''),
         (''url'', JStr ''http://fw/Copter/stable/navio-quad/ArduCopter.apj''),
         (''format'', JStr ''apj'')]"
  have 1: "map_of ?firmware ''url''
             = Some (JStr ''http://fw/Copter/stable/navio-quad/ArduCopter.apj'')"
    by simp
  have 2: "''/b/Copter/stable/navio-quad/ArduCopter.apj''
             = path_join ''/b'' (drop (length ''http://fw'' + 1)
                 ''http://fw/Copter/stable/navio-quad/ArduCopter.apj'')"
    by code_simp
  have 3: "exists round_trip ''/b/Copter/stable/navio-quad/ArduCopter.apj''"
    by code_simp
  have 4: "json_load round_trip ''/b/Copter/stable/navio-quad/ArduCopter.apj''
             = Inr (JDict [(''board_id'', JInt 9)])"
    by code_simp
  have 5: "map_of [(''board_id'', JInt 9)] ''board_id'' = Some (JInt 9)"
    by simp
  have 6: "map_of ?firmware ''platform'' = Some (JStr ''navio'')"
    by simp
  have v: "map_of USBID_MAP ''navio'' = None"
    by code_simp
  from apj_legacy_amendments [OF 1 2 3 4 5 6, of "[]"] v
  show ?thesis by (simp add: Let_def)
qed

text \<open>The round trip of the specification, evaluated: one entry.\<close>

lemma round_trip_run:
  "walk_directory round_trip ''/b'' ''http://fw'' =
     (Inr (JDict
        [(''format-version'', JStr ''1.0.0''),
         (''firmware'', JList [JDict
            [(''mav-autopilot'', JStr ''ARDUPILOTMEGA''),
             (''platform'', JStr ''navio''),
             (''git-sha'', JStr ''deadbeef''),
             (''url'', JStr ''http://fw/Copter/stable/navio-quad/ArduCopter.apj''),
             (''mav-type'', JStr ''QUADROTOR''),
             (''mav-firmware-version-type'', JStr ''OFFICIAL''),
             (''latest'', JInt 0), (''format'', JStr ''apj''),
             (''mav-firmware-version'', JStr ''3.6.0''),
             (''mav-firmware-version-major'', JStr ''3''),
             (''mav-firmware-version-minor'', JStr ''6''),
             (''mav-firmware-version-patch'', JStr ''0''),
             (''board_id'', JInt 9),
             (''bootloader_str'', JList [JStr ''navio-BL'', JStr ''PX4 BL FMU v2.x'']),
             (''USBID'', JList [JStr ''0x0483/0x5740'', JStr ''0x26AC/0x0011''])]])]),
      [])"
  by code_simp

subsection \<open>USB identifiers of a px4 firmware\<close>

lemma split_on_not_Nil [simp]: "split_on c s \<noteq> []"
  by (induction s) (auto split: list.splits)

lemma split_on_append_sep:
  "split_on c (u @ c # s) = split_on c u @ split_on c s"
proof (induction u)
  case Nil
  show ?case by simp
next
  case (Cons x u)
  obtain w ws where "split_on c u = w # ws"
    by (cases "split_on c u") simp_all
  with Cons show ?case by simp
qed

lemma split_on_no_sep: "c \<notin> set s \<Longrightarrow> split_on c s = [s]"
  by (induction s) auto

lemma last_split_on:
  "c \<notin> set s \<Longrightarrow> last (split_on c (u @ c # s)) = s"
  by (simp add: split_on_append_sep split_on_no_sep)

lemma add_USB_IDs_PX4_table:
  assumes "map_of firmware ''url'' = Some (JStr url)"
  shows "add_USB_IDs_PX4 firmware =
           (case map_of
                   [(''v1.px4'', ([''0x26AC/0x0010''], 5, [''PX4 BL FMU v1.x''])),
                    (''v2.px4'', ([''0x26AC/0x0011''], 9, [''PX4 BL FMU v2.x''])),
                    (''v3.px4'', ([''0x26AC/0x0011''], 9, [''PX4 BL FMU v2.x''])),
                    (''v4.px4'', ([''0x26AC/0x0012''], 11, [''PX4 BL FMU v4.x''])),
                    (''v4pro.px4'', ([''0x26AC/0x0013''], 13, [''PX4 BL FMU v4.x PRO'']))]
                   (last (split_on CHR ''-'' url)) of
              None \<Rightarrow> Inr firmware
            | Some (usb, board, bl) \<Rightarrow>
                Inr (AList.update ''bootloader_str'' (strs bl)
                      (AList.update ''board_id'' (JInt board)
                        (AList.update ''USBID'' (strs usb) firmware))))"
  using assms by (simp add: add_USB_IDs_PX4_def Let_def)

lemma build_some_json_ok:
  assumes "re_template E baseurl basedir = Inr repl"
    and "att_filepath fw = Some filepath"
    and "att_release_type fw = Some rt"
    and "att_latest fw = Some l"
    and "att_format fw = Some fmt"
    and "\<forall>v. att_firmware_version fw = Some v \<longrightarrow> v = [] \<or> (\<exists>r. parse_fw_version v = Inr r)"
  shows "\<exists>some_json. build_some_json E basedir baseurl fw = Inr some_json
           \<and> map_of some_json ''url''
               = Some (JStr (if startswith filepath basedir
                             then repl @ drop (length basedir) filepath else filepath))
           \<and> map_of some_json ''format'' = Some (JStr fmt)
           \<and> map_of some_json ''platform'' = Some (opt_str (att_platform fw))
           \<and> map_of some_json ''USBID'' = None
           \<and> map_of some_json ''board_id'' = None
           \<and> map_of some_json ''bootloader_str'' = None"
proof (cases "att_firmware_version fw")
  case None
  with assms(1-5) show ?thesis
    by (simp add: build_some_json_def Let_def)
next
  case (Some v)
  show ?thesis
  proof (cases "v = []")
    case True
    with Some assms(1-5) show ?thesis
      by (simp add: build_some_json_def Let_def)
  next
    case False
    with Some assms(6) obtain x y z w where "parse_fw_version v = Inr (x, y, z, w)"
      by (metis prod_cases4)
    with False Some assms(1-5) show ?thesis
      by (simp add: build_some_json_def Let_def map_of_update_if)
  qed
qed

lemma project_px4:
  assumes "re_template E baseurl basedir = Inr repl"
    and "att_filepath fw = Some (p @ ''-'' @ s)"
    and "CHR ''-'' \<notin> set s"
    and "length basedir \<le> length p"
    and "att_release_type fw = Some rt"
    and "att_latest fw = Some l"
    and "att_format fw = Some ''px4''"
    and "\<forall>v. att_firmware_version fw = Some v \<longrightarrow> v = [] \<or> (\<exists>r. parse_fw_version v = Inr r)"
    and "table =
           [(''v1.px4'', ([''0x26AC/0x0010''], 5, [''PX4 BL FMU v1.x''])),
            (''v2.px4'', ([''0x26AC/0x0011''], 9, [''PX4 BL FMU v2.x''])),
            (''v3.px4'', ([''0x26AC/0x0011''], 9, [''PX4 BL FMU v2.x''])),
            (''v4.px4'', ([''0x26AC/0x0012''], 11, [''PX4 BL FMU v4.x''])),
            (''v4pro.px4'', ([''0x26AC/0x0013''], 13, [''PX4 BL FMU v4.x PRO'']))]"
  shows "\<exists>some_json. project_firmware E basedir baseurl fw lg = (Inr some_json, lg)
           \<and> map_of some_json ''platform'' = Some (opt_str (att_platform fw))
           \<and> map_of some_json ''USBID''
                = map_option (\<lambda>(usb, board, bl). strs usb) (map_of table s)
           \<and> map_of some_json ''board_id''
                = map_option (\<lambda>(usb, board, bl). JInt board) (map_of table s)
           \<and> map_of some_json ''bootloader_str''
                = map_option (\<lambda>(usb, board, bl). strs bl) (map_of table s)"
proof -
  let ?u = "if startswith (p @ ''-'' @ s) basedir then repl @ drop (length basedir) p else p"
  from build_some_json_ok [OF assms(1,2,5,6,7,8)]
  obtain sj where b: "build_some_json E basedir baseurl fw = Inr sj"
    and u: "map_of sj ''url''
              = Some (JStr (if startswith (p @ ''-'' @ s) basedir
                            then repl @ drop (length basedir) (p @ ''-'' @ s)
                            else p @ ''-'' @ s))"
    and f: "map_of sj ''format'' = Some (JStr ''px4'')"
    and pl: "map_of sj ''platform'' = Some (opt_str (att_platform fw))"
    and n: "map_of sj ''USBID'' = None" "map_of sj ''board_id'' = None"
      "map_of sj ''bootloader_str'' = None"
    by blast
  from u assms(4) have u': "map_of sj ''url'' = Some (JStr (?u @ CHR ''-'' # s))"
    by simp
  have l: "last (split_on CHR ''-'' (?u @ CHR ''-'' # s)) = s"
    using assms(3) by (rule last_split_on)
  have p: "project_firmware E basedir baseurl fw lg = (add_USB_IDs_PX4 sj, lg)"
    using b f by (simp add: project_firmware_def add_USB_IDs_def)
  have t: "add_USB_IDs_PX4 sj =
             (case map_of table s of
                None \<Rightarrow> Inr sj
              | Some (usb, board, bl) \<Rightarrow>
                  Inr (AList.update ''bootloader_str'' (strs bl)
                        (AList.update ''board_id'' (JInt board)
                          (AList.update ''USBID'' (strs usb) sj))))"
    using add_USB_IDs_PX4_table [OF u'] unfolding l assms(9) .
  show ?thesis
  proof (cases "map_of table s")
    case None
    with t have "add_USB_IDs_PX4 sj = Inr sj"
      by simp
    with p pl n None show ?thesis by simp
  next
    case (Some row)
    obtain usb board bl where row: "row = (usb, board, bl)"
      by (cases row)
    with Some t
    have "add_USB_IDs_PX4 sj =
            Inr (AList.update ''bootloader_str'' (strs bl)
                  (AList.update ''board_id'' (JInt board)
                    (AList.update ''USBID'' (strs usb) sj)))"
      by simp
    with p pl Some row show ?thesis
      by (simp add: map_of_update_if)
  qed
qed

text \<open>
  C9. For a \<^verbatim>\<open>px4\<close> entry the USB ids are looked up in a table of five rows, at the last
  piece of the URL after a dash: the row found sets the USB ids, the board id and the
  bootloader strings of the entry, and a piece that is no key of the table leaves the
  entry as it is, without an error; the row of \<^verbatim>\<open>v1.px4\<close> is that of the FMU v1. The
  file \<^verbatim>\<open>ArduCopter-v1.px4\<close> of the platform directory \<^verbatim>\<open>PX4\<close> has the platform key
  \<^verbatim>\<open>PX4-v1\<close> and the format \<^verbatim>\<open>px4\<close>. The projection of a \<^verbatim>\<open>px4\<close> record whose path ends
  (after the base directory) with a dash and a piece \<open>s\<close> without a dash gives an entry
  with the platform of the record and the three values of the row of \<open>s\<close>, or none of
  the three keys when \<open>s\<close> has no row.
\<close>

theorem px4_usb_ids:
  "let table =
         [(''v1.px4'', ([''0x26AC/0x0010''], 5, [''PX4 BL FMU v1.x''])),
          (''v2.px4'', ([''0x26AC/0x0011''], 9, [''PX4 BL FMU v2.x''])),
          (''v3.px4'', ([''0x26AC/0x0011''], 9, [''PX4 BL FMU v2.x''])),
          (''v4.px4'', ([''0x26AC/0x0012''], 11, [''PX4 BL FMU v4.x''])),
          (''v4pro.px4'', ([''0x26AC/0x0013''], 13, [''PX4 BL FMU v4.x PRO'']))]
   in
   (map_of firmware ''url'' = Some (JStr url) \<longrightarrow>
      add_USB_IDs_PX4 firmware =
        (case map_of table (last (split_on CHR ''-'' url)) of
           None \<Rightarrow> Inr firmware
         | Some (usb, board, bl) \<Rightarrow>
             Inr (AList.update ''bootloader_str'' (strs bl)
                   (AList.update ''board_id'' (JInt board)
                     (AList.update ''USBID'' (strs usb) firmware)))))
   \<and> (map_of firmware ''url'' = Some (JStr url) \<and> last (split_on CHR ''-'' url) = ''v1.px4'' \<longrightarrow>
      (\<exists>firmware'. add_USB_IDs_PX4 firmware = Inr firmware'
         \<and> map_of firmware' ''USBID'' = Some (strs [''0x26AC/0x0010''])
         \<and> map_of firmware' ''board_id'' = Some (JInt 5)
         \<and> map_of firmware' ''bootloader_str'' = Some (strs [''PX4 BL FMU v1.x''])))
   \<and> (map_of firmware ''url'' = Some (JStr url)
        \<and> last (split_on CHR ''-'' url)
             \<notin> {''v1.px4'', ''v2.px4'', ''v3.px4'', ''v4.px4'', ''v4pro.px4''} \<longrightarrow>
      add_USB_IDs_PX4 firmware = Inr firmware)
   \<and> infer_platform_frame ''PX4'' vt = (''PX4'', vt)
   \<and> file_platform_of ''PX4'' ''ArduCopter-v1.px4'' = ''PX4-v1''
   \<and> firmware_format_of ''ArduCopter-v1.px4'' = ''px4''
   \<and> (re_template E baseurl basedir = Inr repl
        \<and> att_filepath fw = Some (p @ ''-'' @ s) \<and> CHR ''-'' \<notin> set s
        \<and> length basedir \<le> length p
        \<and> att_release_type fw = Some rt \<and> att_latest fw = Some l
        \<and> att_format fw = Some ''px4''
        \<and> (\<forall>v. att_firmware_version fw = Some v \<longrightarrow>
              v = [] \<or> (\<exists>r. parse_fw_version v = Inr r)) \<longrightarrow>
      (\<exists>some_json. project_firmware E basedir baseurl fw lg = (Inr some_json, lg)
         \<and> map_of some_json ''platform'' = Some (opt_str (att_platform fw))
         \<and> map_of some_json ''USBID''
              = map_option (\<lambda>(usb, board, bl). strs usb) (map_of table s)
         \<and> map_of some_json ''board_id''
              = map_option (\<lambda>(usb, board, bl). JInt board) (map_of table s)
         \<and> map_of some_json ''bootloader_str''
              = map_option (\<lambda>(usb, board, bl). strs bl) (map_of table s)))"
  unfolding Let_def
  apply (intro conjI impI)
  subgoal by (rule add_USB_IDs_PX4_table)
  subgoal using add_USB_IDs_PX4_table [of firmware url] by (simp add: map_of_update_if)
  subgoal using add_USB_IDs_PX4_table [of firmware url] by simp
  subgoal using infer_board_only [of "''PX4''" "[]" vt] by simp
  subgoal by code_simp
  subgoal by code_simp
  subgoal by (elim conjE, rule project_px4 [OF _ _ _ _ _ _ _ _ refl]; assumption)
  done

theorem px4_usb_ids_witness:
  "add_USB_IDs_PX4 [(''url'', JStr ''http://fw/Copter/stable/PX4/ArduCopter-v1.px4'')]
       = Inr [(''url'', JStr ''http://fw/Copter/stable/PX4/ArduCopter-v1.px4''),
              (''USBID'', strs [''0x26AC/0x0010'']), (''board_id'', JInt 5),
              (''bootloader_str'', strs [''PX4 BL FMU v1.x''])]
   \<and> add_USB_IDs_PX4 [(''url'', JStr ''http://fw/Copter/stable/PX4/ArduCopter-v2.px4'')]
       = Inr [(''url'', JStr ''http://fw/Copter/stable/PX4/ArduCopter-v2.px4''),
              (''USBID'', strs [''0x26AC/0x0011'']), (''board_id'', JInt 9),
              (''bootloader_str'', strs [''PX4 BL FMU v2.x''])]
   \<and> add_USB_IDs_PX4 [(''url'', JStr ''http://fw/Copter/stable/PX4/ArduCopter-v3.px4'')]
       = Inr [(''url'', JStr ''http://fw/Copter/stable/PX4/ArduCopter-v3.px4''),
              (''USBID'', strs [''0x26AC/0x0011'']), (''board_id'', JInt 9),
              (''bootloader_str'', strs [''PX4 BL FMU v2.x''])]
   \<and> add_USB_IDs_PX4 [(''url'', JStr ''http://fw/Copter/stable/PX4/ArduCopter-v4.px4'')]
       = Inr [(''url'', JStr ''http://fw/Copter/stable/PX4/ArduCopter-v4.px4''),
              (''USBID'', strs [''0x26AC/0x0012'']), (''board_id'', JInt 11),
              (''bootloader_str'', strs [''PX4 BL FMU v4.x''])]
   \<and> add_USB_IDs_PX4 [(''url'', JStr ''http://fw/Copter/stable/PX4/ArduCopter-v4pro.px4'')]
       = Inr [(''url'', JStr ''http://fw/Copter/stable/PX4/ArduCopter-v4pro.px4''),
              (''USBID'', strs [''0x26AC/0x0013'']), (''board_id'', JInt 13),
              (''bootloader_str'', strs [''PX4 BL FMU v4.x PRO''])]
   \<and> add_USB_IDs_PX4 [(''url'', JStr ''http://fw/Copter/stable/PX4/ArduCopter-v5.px4'')]
       = Inr [(''url'', JStr ''http://fw/Copter/stable/PX4/ArduCopter-v5.px4'')]
   \<and> (\<exists>some_json.
         project_firmware px4_build ''/b'' ''http://fw''
           \<lparr>att_date = None, att_platform = Some ''PX4-v1'', att_vehicletype = Some ''Copter'',
            att_filepath = Some ''/b/Copter/stable/PX4/ArduCopter-v1.px4'',
            att_git_sha = Some ''deadbeef'', att_frame = Some ''Copter'',
            att_release_type = Some ''stable'',
            att_firmware_version = Some ''3.6.0-official'', att_latest = Some 0,
            att_timestamp = Some 0, att_format = Some ''px4''\<rparr> [] = (Inr some_json, [])
         \<and> map_of some_json ''platform'' = Some (JStr ''PX4-v1'')
         \<and> map_of some_json ''USBID'' = Some (strs [''0x26AC/0x0010''])
         \<and> map_of some_json ''board_id'' = Some (JInt 5)
         \<and> map_of some_json ''bootloader_str'' = Some (strs [''PX4 BL FMU v1.x'']))
   \<and> (\<exists>some_json.
         project_firmware px4_build ''/b'' ''http://fw''
           \<lparr>att_date = None, att_platform = Some ''PX4-v4pro'', att_vehicletype = Some ''Copter'',
            att_filepath = Some ''/b/Copter/stable/PX4/ArduCopter-v4pro.px4'',
            att_git_sha = Some ''deadbeef'', att_frame = Some ''Copter'',
            att_release_type = Some ''stable'',
            att_firmware_version = Some ''3.6.0-official'', att_latest = Some 0,
            att_timestamp = Some 0, att_format = Some ''px4''\<rparr> [] = (Inr some_json, [])
         \<and> map_of some_json ''platform'' = Some (JStr ''PX4-v4pro'')
         \<and> map_of some_json ''USBID'' = Some (strs [''0x26AC/0x0013''])
         \<and> map_of some_json ''board_id'' = Some (JInt 13)
         \<and> map_of some_json ''bootloader_str'' = Some (strs [''PX4 BL FMU v4.x PRO'']))
   \<and> (\<exists>some_json.
         project_firmware px4_build ''/b'' ''http://fw''
           \<lparr>att_date = None, att_platform = Some ''PX4-v5'', att_vehicletype = Some ''Copter'',
            att_filepath = Some ''/b/Copter/stable/PX4/ArduCopter-v5.px4'',
            att_git_sha = Some ''deadbeef'', att_frame = Some ''Copter'',
            att_release_type = Some ''stable'',
            att_firmware_version = Some ''3.6.0-official'', att_latest = Some 0,
            att_timestamp = Some 0, att_format = Some ''px4''\<rparr> [] = (Inr some_json, [])
         \<and> map_of some_json ''platform'' = Some (JStr ''PX4-v5'')
         \<and> map_of some_json ''USBID'' = None
         \<and> map_of some_json ''board_id'' = None
         \<and> map_of some_json ''bootloader_str'' = None)"
proof -
  note tab = px4_usb_ids [unfolded Let_def]
  have s_v1: "last (split_on CHR ''-'' ''http://fw/Copter/stable/PX4/ArduCopter-v1.px4'') = ''v1.px4''"
    by code_simp
  have a_v1: "add_USB_IDs_PX4 [(''url'', JStr ''http://fw/Copter/stable/PX4/ArduCopter-v1.px4'')]
       = Inr [(''url'', JStr ''http://fw/Copter/stable/PX4/ArduCopter-v1.px4''),
              (''USBID'', strs [''0x26AC/0x0010'']), (''board_id'', JInt 5),
              (''bootloader_str'', strs [''PX4 BL FMU v1.x''])]"
    using tab [where firmware = "[(''url'', JStr ''http://fw/Copter/stable/PX4/ArduCopter-v1.px4'')]"
                 and url = "''http://fw/Copter/stable/PX4/ArduCopter-v1.px4''", THEN conjunct1] s_v1
    by simp
  have s_v2: "last (split_on CHR ''-'' ''http://fw/Copter/stable/PX4/ArduCopter-v2.px4'') = ''v2.px4''"
    by code_simp
  have a_v2: "add_USB_IDs_PX4 [(''url'', JStr ''http://fw/Copter/stable/PX4/ArduCopter-v2.px4'')]
       = Inr [(''url'', JStr ''http://fw/Copter/stable/PX4/ArduCopter-v2.px4''),
              (''USBID'', strs [''0x26AC/0x0011'']), (''board_id'', JInt 9),
              (''bootloader_str'', strs [''PX4 BL FMU v2.x''])]"
    using tab [where firmware = "[(''url'', JStr ''http://fw/Copter/stable/PX4/ArduCopter-v2.px4'')]"
                 and url = "''http://fw/Copter/stable/PX4/ArduCopter-v2.px4''", THEN conjunct1] s_v2
    by simp
  have s_v3: "last (split_on CHR ''-'' ''http://fw/Copter/stable/PX4/ArduCopter-v3.px4'') = ''v3.px4''"
    by code_simp
  have a_v3: "add_USB_IDs_PX4 [(''url'', JStr ''http://fw/Copter/stable/PX4/ArduCopter-v3.px4'')]
       = Inr [(''url'', JStr ''http://fw/Copter/stable/PX4/ArduCopter-v3.px4''),
              (''USBID'', strs [''0x26AC/0x0011'']), (''board_id'', JInt 9),
              (''bootloader_str'', strs [''PX4 BL FMU v2.x''])]"
    using tab [where firmware = "[(''url'', JStr ''http://fw/Copter/stable/PX4/ArduCopter-v3.px4'')]"
                 and url = "''http://fw/Copter/stable/PX4/ArduCopter-v3.px4''", THEN conjunct1] s_v3
    by simp
  have s_v4: "last (split_on CHR ''-'' ''http://fw/Copter/stable/PX4/ArduCopter-v4.px4'') = ''v4.px4''"
    by code_simp
  have a_v4: "add_USB_IDs_PX4 [(''url'', JStr ''http://fw/Copter/stable/PX4/ArduCopter-v4.px4'')]
       = Inr [(''url'', JStr ''http://fw/Copter/stable/PX4/ArduCopter-v4.px4''),
              (''USBID'', strs [''0x26AC/0x0012'']), (''board_id'', JInt 11),
              (''bootloader_str'', strs [''PX4 BL FMU v4.x''])]"
    using tab [where firmware = "[(''url'', JStr ''http://fw/Copter/stable/PX4/ArduCopter-v4.px4'')]"
                 and url = "''http://fw/Copter/stable/PX4/ArduCopter-v4.px4''", THEN conjunct1] s_v4
    by simp
  have s_v4pro: "last (split_on CHR ''-'' ''http://fw/Copter/stable/PX4/ArduCopter-v4pro.px4'') = ''v4pro.px4''"
    by code_simp
  have a_v4pro: "add_USB_IDs_PX4 [(''url'', JStr ''http://fw/Copter/stable/PX4/ArduCopter-v4pro.px4'')]
       = Inr [(''url'', JStr ''http://fw/Copter/stable/PX4/ArduCopter-v4pro.px4''),
              (''USBID'', strs [''0x26AC/0x0013'']), (''board_id'', JInt 13),
              (''bootloader_str'', strs [''PX4 BL FMU v4.x PRO''])]"
    using tab [where firmware = "[(''url'', JStr ''http://fw/Copter/stable/PX4/ArduCopter-v4pro.px4'')]"
                 and url = "''http://fw/Copter/stable/PX4/ArduCopter-v4pro.px4''", THEN conjunct1] s_v4pro
    by simp
  have s_v5: "last (split_on CHR ''-'' ''http://fw/Copter/stable/PX4/ArduCopter-v5.px4'') = ''v5.px4''"
    by code_simp
  have a_v5: "add_USB_IDs_PX4 [(''url'', JStr ''http://fw/Copter/stable/PX4/ArduCopter-v5.px4'')]
       = Inr [(''url'', JStr ''http://fw/Copter/stable/PX4/ArduCopter-v5.px4'')]"
    using tab [where firmware = "[(''url'', JStr ''http://fw/Copter/stable/PX4/ArduCopter-v5.px4'')]"
                 and url = "''http://fw/Copter/stable/PX4/ArduCopter-v5.px4''", THEN conjunct1] s_v5
    by simp
  have t: "re_template px4_build ''http://fw'' ''/b'' = Inr ''http://fw''"
    by code_simp
  have v: "parse_fw_version ''3.6.0-official'' = Inr (''3'', ''6'', ''0'', ''3.6.0-official'')"
    by code_simp
  have p_v1: "(\<exists>some_json.
         project_firmware px4_build ''/b'' ''http://fw''
           \<lparr>att_date = None, att_platform = Some ''PX4-v1'', att_vehicletype = Some ''Copter'',
            att_filepath = Some ''/b/Copter/stable/PX4/ArduCopter-v1.px4'',
            att_git_sha = Some ''deadbeef'', att_frame = Some ''Copter'',
            att_release_type = Some ''stable'',
            att_firmware_version = Some ''3.6.0-official'', att_latest = Some 0,
            att_timestamp = Some 0, att_format = Some ''px4''\<rparr> [] = (Inr some_json, [])
         \<and> map_of some_json ''platform'' = Some (JStr ''PX4-v1'')
         \<and> map_of some_json ''USBID'' = Some (strs [''0x26AC/0x0010''])
         \<and> map_of some_json ''board_id'' = Some (JInt 5)
         \<and> map_of some_json ''bootloader_str'' = Some (strs [''PX4 BL FMU v1.x'']))"
    using tab [where E = px4_build and baseurl = "''http://fw''" and basedir = "''/b''"
                 and repl = "''http://fw''" and p = "''/b/Copter/stable/PX4/ArduCopter''"
                 and s = "''v1.px4''" and rt = "''stable''" and l = 0 and lg = "[]"
                 and fw = "\<lparr>att_date = None, att_platform = Some ''PX4-v1'', att_vehicletype = Some ''Copter'',
            att_filepath = Some ''/b/Copter/stable/PX4/ArduCopter-v1.px4'',
            att_git_sha = Some ''deadbeef'', att_frame = Some ''Copter'',
            att_release_type = Some ''stable'',
            att_firmware_version = Some ''3.6.0-official'', att_latest = Some 0,
            att_timestamp = Some 0, att_format = Some ''px4''\<rparr>",
               THEN conjunct2, THEN conjunct2, THEN conjunct2, THEN conjunct2,
               THEN conjunct2, THEN conjunct2] t v
    by (simp add: opt_str_def)
  have p_v4pro: "(\<exists>some_json.
         project_firmware px4_build ''/b'' ''http://fw''
           \<lparr>att_date = None, att_platform = Some ''PX4-v4pro'', att_vehicletype = Some ''Copter'',
            att_filepath = Some ''/b/Copter/stable/PX4/ArduCopter-v4pro.px4'',
            att_git_sha = Some ''deadbeef'', att_frame = Some ''Copter'',
            att_release_type = Some ''stable'',
            att_firmware_version = Some ''3.6.0-official'', att_latest = Some 0,
            att_timestamp = Some 0, att_format = Some ''px4''\<rparr> [] = (Inr some_json, [])
         \<and> map_of some_json ''platform'' = Some (JStr ''PX4-v4pro'')
         \<and> map_of some_json ''USBID'' = Some (strs [''0x26AC/0x0013''])
         \<and> map_of some_json ''board_id'' = Some (JInt 13)
         \<and> map_of some_json ''bootloader_str'' = Some (strs [''PX4 BL FMU v4.x PRO'']))"
    using tab [where E = px4_build and baseurl = "''http://fw''" and basedir = "''/b''"
                 and repl = "''http://fw''" and p = "''/b/Copter/stable/PX4/ArduCopter''"
                 and s = "''v4pro.px4''" and rt = "''stable''" and l = 0 and lg = "[]"
                 and fw = "\<lparr>att_date = None, att_platform = Some ''PX4-v4pro'', att_vehicletype = Some ''Copter'',
            att_filepath = Some ''/b/Copter/stable/PX4/ArduCopter-v4pro.px4'',
            att_git_sha = Some ''deadbeef'', att_frame = Some ''Copter'',
            att_release_type = Some ''stable'',
            att_firmware_version = Some ''3.6.0-official'', att_latest = Some 0,
            att_timestamp = Some 0, att_format = Some ''px4''\<rparr>",
               THEN conjunct2, THEN conjunct2, THEN conjunct2, THEN conjunct2,
               THEN conjunct2, THEN conjunct2] t v
    by (simp add: opt_str_def)
  have p_v5: "(\<exists>some_json.
         project_firmware px4_build ''/b'' ''http://fw''
           \<lparr>att_date = None, att_platform = Some ''PX4-v5'', att_vehicletype = Some ''Copter'',
            att_filepath = Some ''/b/Copter/stable/PX4/ArduCopter-v5.px4'',
            att_git_sha = Some ''deadbeef'', att_frame = Some ''Copter'',
            att_release_type = Some ''stable'',
            att_firmware_version = Some ''3.6.0-official'', att_latest = Some 0,
            att_timestamp = Some 0, att_format = Some ''px4''\<rparr> [] = (Inr some_json, [])
         \<and> map_of some_json ''platform'' = Some (JStr ''PX4-v5'')
         \<and> map_of some_json ''USBID'' = None
         \<and> map_of some_json ''board_id'' = None
         \<and> map_of some_json ''bootloader_str'' = None)"
    using tab [where E = px4_build and baseurl = "''http://fw''" and basedir = "''/b''"
                 and repl = "''http://fw''" and p = "''/b/Copter/stable/PX4/ArduCopter''"
                 and s = "''v5.px4''" and rt = "''stable''" and l = 0 and lg = "[]"
                 and fw = "\<lparr>att_date = None, att_platform = Some ''PX4-v5'', att_vehicletype = Some ''Copter'',
            att_filepath = Some ''/b/Copter/stable/PX4/ArduCopter-v5.px4'',
            att_git_sha = Some ''deadbeef'', att_frame = Some ''Copter'',
            att_release_type = Some ''stable'',
            att_firmware_version = Some ''3.6.0-official'', att_latest = Some 0,
            att_timestamp = Some 0, att_format = Some ''px4''\<rparr>",
               THEN conjunct2, THEN conjunct2, THEN conjunct2, THEN conjunct2,
               THEN conjunct2, THEN conjunct2] t v
    by (simp add: opt_str_def)
  show ?thesis
    by (intro conjI) (rule a_v1 a_v2 a_v3 a_v4 a_v4pro a_v5 p_v1 p_v4pro p_v5)+
qed

text \<open>The walk over \<^verbatim>\<open>Copter/stable/PX4/ArduCopter-v1.px4\<close>, evaluated.\<close>

lemma px4_build_run:
  "walk_directory px4_build ''/b'' ''http://fw'' =
     (Inr (JDict
        [(''format-version'', JStr ''1.0.0''),
         (''firmware'', JList [JDict
            [(''mav-autopilot'', JStr ''ARDUPILOTMEGA''),
             (''platform'', JStr ''PX4-v1''),
             (''git-sha'', JStr ''deadbeef''),
             (''url'', JStr ''http://fw/Copter/stable/PX4/ArduCopter-v1.px4''),
             (''mav-type'', JStr ''Copter''),
             (''mav-firmware-version-type'', JStr ''OFFICIAL''),
             (''latest'', JInt 0), (''format'', JStr ''px4''),
             (''mav-firmware-version'', JStr ''3.6.0''),
             (''mav-firmware-version-major'', JStr ''3''),
             (''mav-firmware-version-minor'', JStr ''6''),
             (''mav-firmware-version-patch'', JStr ''0''),
             (''USBID'', JList [JStr ''0x26AC/0x0010'']),
             (''board_id'', JInt 5),
             (''bootloader_str'', JList [JStr ''PX4 BL FMU v1.x''])]])]),
      [])"
  by code_simp

end
